theory Spec2Isabelle
  imports Complex_Main "HOL-Library.AList"
begin

section \<open>Numbers, vectors and screen coordinates\<close>

text \<open>
  Screen coordinates and sizes are JavaScript numbers. \<open>_getPolygonDimensions\<close> starts its
  folds at \<open>+Infinity\<close> and \<open>-Infinity\<close>, so these numbers are modelled with the two
  infinities and \<open>NaN\<close>; a finite double is identified with the real it denotes (rounding is
  not modelled). Comparisons with \<open>NaN\<close> are false, as in JavaScript.
\<close>

datatype num = NaN | NegInfinity | Finite real | Infinity

fun num_neg :: "num \<Rightarrow> num" where
  "num_neg NaN = NaN"
| "num_neg NegInfinity = Infinity"
| "num_neg Infinity = NegInfinity"
| "num_neg (Finite a) = Finite (- a)"

fun num_add :: "num \<Rightarrow> num \<Rightarrow> num" where
  "num_add (Finite a) (Finite b) = Finite (a + b)"
| "num_add NaN _ = NaN"
| "num_add _ NaN = NaN"
| "num_add Infinity NegInfinity = NaN"
| "num_add NegInfinity Infinity = NaN"
| "num_add Infinity _ = Infinity"
| "num_add _ Infinity = Infinity"
| "num_add NegInfinity _ = NegInfinity"
| "num_add _ NegInfinity = NegInfinity"

definition num_sub :: "num \<Rightarrow> num \<Rightarrow> num" where
  "num_sub a b = num_add a (num_neg b)"

fun num_sign :: "num \<Rightarrow> int" where
  "num_sign NaN = 0"
| "num_sign NegInfinity = - 1"
| "num_sign Infinity = 1"
| "num_sign (Finite a) = (if a < 0 then - 1 else if a = 0 then 0 else 1)"

fun num_mul :: "num \<Rightarrow> num \<Rightarrow> num" where
  "num_mul (Finite a) (Finite b) = Finite (a * b)"
| "num_mul NaN _ = NaN"
| "num_mul _ NaN = NaN"
| "num_mul a b =
     (if num_sign a * num_sign b = 0 then NaN
      else if num_sign a * num_sign b > 0 then Infinity else NegInfinity)"

text \<open>\<open>a <= b\<close> and \<open>a >= b\<close> of JavaScript.\<close>

fun num_le :: "num \<Rightarrow> num \<Rightarrow> bool" where
  "num_le NaN _ = False"
| "num_le _ NaN = False"
| "num_le NegInfinity _ = True"
| "num_le _ Infinity = True"
| "num_le (Finite a) (Finite b) = (a \<le> b)"
| "num_le _ _ = False"

definition num_ge :: "num \<Rightarrow> num \<Rightarrow> bool" where
  "num_ge a b = num_le b a"

text \<open>\<open>Math.min\<close> and \<open>Math.max\<close> on two arguments.\<close>

fun Math_min :: "num \<Rightarrow> num \<Rightarrow> num" where
  "Math_min NaN _ = NaN"
| "Math_min _ NaN = NaN"
| "Math_min a b = (if num_le a b then a else b)"

fun Math_max :: "num \<Rightarrow> num \<Rightarrow> num" where
  "Math_max NaN _ = NaN"
| "Math_max _ NaN = NaN"
| "Math_max a b = (if num_le a b then b else a)"

text \<open>
  \<open>THREE.Vector3\<close> with the operations the component calls. Angles and vector components
  are finite numbers, modelled as reals. \<open>normalize\<close> divides by the length and leaves the
  zero vector as it is.
\<close>

datatype vec = Vector3 (vx: real) (vy: real) (vz: real)

definition dot :: "vec \<Rightarrow> vec \<Rightarrow> real" where
  "dot a b = vx a * vx b + vy a * vy b + vz a * vz b"

definition crossVectors :: "vec \<Rightarrow> vec \<Rightarrow> vec" where
  "crossVectors a b =
     Vector3 (vy a * vz b - vz a * vy b) (vz a * vx b - vx a * vz b) (vx a * vy b - vy a * vx b)"

definition multiplyScalar :: "vec \<Rightarrow> real \<Rightarrow> vec" where
  "multiplyScalar a s = Vector3 (vx a * s) (vy a * s) (vz a * s)"

definition vlength :: "vec \<Rightarrow> real" where
  "vlength a = sqrt (vx a * vx a + vy a * vy a + vz a * vz a)"

definition normalize :: "vec \<Rightarrow> vec" where
  "normalize a = (if vlength a = 0 then Vector3 0 0 0 else multiplyScalar a (1 / vlength a))"

record coords =
  c_top :: num
  c_left :: num

record spherical =
  s_latitude :: real
  s_longitude :: real

section \<open>Markers\<close>

text \<open>
  The \<open>visible\<close> flag of a marker is written as a boolean by \<open>hideMarker\<close> and
  \<open>showMarker\<close> and as a 32-bit integer by the \<open>^=\<close> of \<open>toggleMarker\<close>.
\<close>

datatype jsflag = JBool bool | JNum int

fun truthy :: "jsflag \<Rightarrow> bool" where
  "truthy (JBool b) = b"
| "truthy (JNum n) = (n \<noteq> 0)"

text \<open>\<open>ToInt32\<close> of a flag, and \<open>flag ^ true\<close> on 32-bit two's complement integers.\<close>

definition toInt32 :: "int \<Rightarrow> int" where
  "toInt32 n = (let m = n mod 2 ^ 32 in if m \<ge> 2 ^ 31 then m - 2 ^ 32 else m)"

fun flagToInt32 :: "jsflag \<Rightarrow> int" where
  "flagToInt32 (JBool b) = (if b then 1 else 0)"
| "flagToInt32 (JNum n) = toInt32 n"

definition xorTrue :: "jsflag \<Rightarrow> jsflag" where
  "xorTrue v = (let n = flagToInt32 v in JNum (if even n then n + 1 else n - 1))"

text \<open>
  Modelled from the spec: the marker class (\<open>PSVMarker\<close>, not among the sources). A marker is
  a point (one direction) or a polygon (an ordered sequence of directions \<open>positions3D\<close> with
  the parallel sequence \<open>polygon_rad\<close>); \<open>isNormal\<close> and \<open>isPolygon\<close> test the kind. The
  fields \<open>el_visible\<close>, \<open>el_points\<close> and \<open>el_transform\<close> stand for the state of the
  marker's visual element \<open>$el\<close>: the \<open>visible\<close> class, the \<open>points\<close> attribute (kept as
  the list of coordinates that the code prints into it) and the CSS transform (position and
  rotation in degrees).
\<close>

datatype geometry = Point vec | Polygon "vec list" "(real \<times> real) list"

record tooltip_content =
  t_content :: string
  t_position :: string

record marker =
  marker_id :: string
  geometry :: geometry
  visible :: jsflag
  dynamicSize :: bool
  anchor :: coords
  width :: num
  height :: num
  position2D :: "coords option"
  tooltip :: "tooltip_content option"
  content :: "string option"
  el_visible :: bool
  el_points :: "coords list"
  el_transform :: "(coords \<times> real) option"

definition isNormal :: "marker \<Rightarrow> bool" where
  "isNormal m = (case geometry m of Point _ \<Rightarrow> True | Polygon _ _ \<Rightarrow> False)"

definition isPolygon :: "marker \<Rightarrow> bool" where
  "isPolygon m = (case geometry m of Point _ \<Rightarrow> False | Polygon _ _ \<Rightarrow> True)"

text \<open>
  Modelled from the spec: the properties object handed to \<open>addMarker\<close> and \<open>updateMarker\<close>,
  the marker constructor and \<open>marker.update\<close> (all of \<open>PSVMarker\<close>, not among the sources).
  The constructor keeps the id and starts visible with no cached projection; \<open>update\<close> merges
  the given properties and keeps the id.
\<close>

record properties =
  p_id :: "string option"
  p_geometry :: geometry
  p_visible :: "bool option"
  p_dynamicSize :: bool
  p_anchor :: coords
  p_width :: num
  p_height :: num
  p_tooltip :: "tooltip_content option"
  p_content :: "string option"

definition PSVMarker :: "properties \<Rightarrow> marker" where
  "PSVMarker p =
     \<lparr> marker_id = (case p_id p of Some i \<Rightarrow> i | None \<Rightarrow> []),
       geometry = p_geometry p,
       visible = JBool True,
       dynamicSize = p_dynamicSize p,
       anchor = p_anchor p,
       width = p_width p,
       height = p_height p,
       position2D = None,
       tooltip = p_tooltip p,
       content = p_content p,
       el_visible = False,
       el_points = [],
       el_transform = None \<rparr>"

definition marker_update :: "properties \<Rightarrow> marker \<Rightarrow> marker" where
  "marker_update p m =
     m \<lparr> geometry := p_geometry p,
         visible := (case p_visible p of Some b \<Rightarrow> JBool b | None \<Rightarrow> visible m),
         dynamicSize := p_dynamicSize p,
         anchor := p_anchor p,
         width := p_width p,
         height := p_height p,
         tooltip := p_tooltip p,
         content := p_content p \<rparr>"

section \<open>The viewer and the state of the HUD\<close>

text \<open>
  The viewer \<open>psv\<close> is an external collaborator. Its properties read by the HUD are fields;
  its conversion functions, the helpers of \<open>PSVUtils\<close> (\<open>parseAngle\<close>, \<open>Deg2Rad\<close>) and
  the layout query \<open>getBoundingClientRect\<close> of a marker's element are parameters.
\<close>

record rect =
  r_left :: num
  r_right :: num
  r_top :: num
  r_bottom :: num

record psv =
  direction :: vec
  size_width :: num
  size_height :: num
  longitude :: real
  latitude :: real
  hFov :: real
  vFov :: real
  moving :: bool
  isGyroscopeEnabled :: bool
  camera_rotation_z :: real
  click_event_on_marker :: bool
  arrow_size :: num
  container_top :: num
  container_left :: num
  vector3ToViewerCoords :: "vec \<Rightarrow> coords"
  vector3ToSphericalCoords :: "vec \<Rightarrow> spherical"
  sphericalCoordsToVector3 :: "real \<Rightarrow> real \<Rightarrow> vec"
  parseAngle :: "real \<Rightarrow> real"
  Deg2Rad :: real
  getBoundingClientRect :: "nat \<Rightarrow> rect"

record fov_bounds =
  longitude1 :: real
  longitude2 :: real
  latitude1 :: real
  latitude2 :: real
  latitudeCrossOrigin :: bool

datatype tooltip_marker = MarkerObject nat | Box num num

record tooltip_config =
  tc_content :: string
  tc_position :: string
  tc_top :: num
  tc_left :: num
  tc_marker :: tooltip_marker

text \<open>
  Marker objects live in a heap and are named by references, so that the registry, the
  selection and the hover slot can share one object and a removed marker can still be
  referred to. The registry \<open>markers\<close> is a JavaScript object used as a dictionary: an
  association list in insertion order, which is the order of \<open>for ... in\<close> and
  \<open>Object.keys\<close> for keys that are not array indices. Ids are strings other than the
  property names every object inherits. The children of the HUD container and of the SVG
  container are lists of references to the markers whose elements are attached.
  \<open>tooltip_shown\<close> and \<open>panel_content\<close> model the tooltip and the panel of the viewer
  (shown with a configuration or content, or hidden); \<open>triggered\<close> records the events
  passed to \<open>psv.trigger\<close>.
\<close>

record hud =
  markers :: "(string \<times> nat) list"
  heap :: "nat \<Rightarrow> marker"
  nextRef :: nat
  container_children :: "nat list"
  svg_children :: "nat list"
  currentMarker :: "nat option"
  hoveringMarker :: "nat option"
  fovBounds :: "fov_bounds option"
  frustrumPoints :: "vec list"
  tooltip_shown :: "tooltip_config option"
  panel_content :: "string option"
  triggered :: "(string \<times> nat) list"

text \<open>
  Exceptions: the three \<open>PSVError\<close>s thrown by the HUD, named by their messages, the
  \<open>TypeError\<close> of reading a property of \<open>undefined\<close>, and the exception of
  \<open>removeChild\<close> on a node that is not a child. An operation returns its outcome and the
  state it leaves behind.
\<close>

datatype error = MissingMarkerId | AlreadyExists string | CannotFind string | TypeError | NotAChild

datatype 'a result = Return 'a | Throw error

section \<open>Polygon clipping and great-circle intersection\<close>

text \<open>
  The great-circle distance by the spherical law of cosines; the source writes this
  expression out at each of its nine uses. The arcs are exact reals: the rounding of
  \<open>Math.acos\<close>, \<open>Math.sin\<close> and \<open>Math.cos\<close> and the value \<open>NaN\<close> are not modelled, so
  a comparison of arcs with the tolerance \<open>1e-15\<close> agrees with the code where the two
  sides differ by much more than the rounding error.
\<close>

definition arc :: "spherical \<Rightarrow> spherical \<Rightarrow> real" where
  "arc A B =
     arccos (sin (s_latitude A) * sin (s_latitude B)
             + cos (s_latitude A) * cos (s_latitude B) * cos \<bar>s_longitude A - s_longitude B\<bar>)"

definition tolerance :: real where
  "tolerance = 1 / 10 ^ 15"

definition computeArcIntersection2 :: "psv \<Rightarrow> vec \<Rightarrow> vec \<Rightarrow> vec \<Rightarrow> vec \<Rightarrow> vec option" where
  "computeArcIntersection2 v P1 P2 P3 P4 =
     (let U1 = normalize (crossVectors P1 P2);
          U2 = normalize (crossVectors P3 P4);
          S1 = normalize (crossVectors U1 U2);
          S2 = multiplyScalar S1 (- 1);
          S1' = vector3ToSphericalCoords v S1;
          S2' = vector3ToSphericalCoords v S2;
          P1' = vector3ToSphericalCoords v P1;
          P2' = vector3ToSphericalCoords v P2;
          P3' = vector3ToSphericalCoords v P3;
          P4' = vector3ToSphericalCoords v P4;
          P1_P2 = arc P1' P2';
          S1_P1 = arc S1' P1';
          S1_P2 = arc S1' P2';
          C = (if P1_P2 - S1_P1 - S1_P2 < tolerance then Some (S1, S1')
               else let S2_P1 = arc S2' P1';
                        S2_P2 = arc S2' P2'
                    in if P1_P2 - S2_P1 - S2_P2 < tolerance then Some (S2, S2') else None)
      in case C of
           None \<Rightarrow> None
         | Some (C, C') \<Rightarrow>
             let P3_P4 = arc P3' P4';
                 C_P3 = arc C' P3';
                 C_P4 = arc C' P4'
             in if P3_P4 - C_P3 - C_P4 < tolerance then Some C else None)"

text \<open>
  Reading an array at an index: \<open>undefined\<close> (here \<open>None\<close>) outside the array, also at
  \<open>-1\<close>.
\<close>

definition nth_opt :: "'a list \<Rightarrow> int \<Rightarrow> 'a option" where
  "nth_opt xs i = (if 0 \<le> i \<and> i < int (length xs) then Some (xs ! nat i) else None)"

text \<open>
  The loop \<open>sides.some(...)\<close> of \<open>_computeIntermediaryPoint\<close>: the first side with an
  intersection wins. A corner that is \<open>undefined\<close> makes the cross product throw.
\<close>

fun firstIntersection ::
  "psv \<Rightarrow> vec \<Rightarrow> vec \<Rightarrow> (vec option \<times> vec option) list \<Rightarrow> error + vec option" where
  "firstIntersection v P1 P2 [] = Inr None"
| "firstIntersection v P1 P2 ((Some P3, Some P4) # sides) =
     (case computeArcIntersection2 v P1 P2 P3 P4 of
        Some temp \<Rightarrow> Inr (Some temp)
      | None \<Rightarrow> firstIntersection v P1 P2 sides)"
| "firstIntersection v P1 P2 (_ # sides) = Inl TypeError"

definition computeIntermediaryPoint :: "psv \<Rightarrow> vec list \<Rightarrow> vec \<Rightarrow> vec \<Rightarrow> error + vec option" where
  "computeIntermediaryPoint v fp P1 P2 =
     firstIntersection v P1 P2
       [(nth_opt fp 0, nth_opt fp 1),
        (nth_opt fp 1, nth_opt fp 2),
        (nth_opt fp 2, nth_opt fp 3),
        (nth_opt fp 3, nth_opt fp 0)]"

text \<open>The objects built by the first \<open>map\<close> of \<open>_getPolygonPositions\<close>.\<close>

record pos =
  pos_spherical :: "real \<times> real"
  pos_vector :: "vec option"
  pos_visible :: bool

text \<open>
  The inclusion test of that \<open>map\<close>: \<open>pos[0]\<close> against the latitude bounds, then
  \<open>pos[1]\<close> against the longitude bounds. The \<open>&=\<close> leaves 0 or 1, read as a truth value.
\<close>

definition inFov :: "fov_bounds \<Rightarrow> real \<times> real \<Rightarrow> bool" where
  "inFov fb p =
     (let visible = (fst p > latitude1 fb \<and> fst p < latitude2 fb)
      in if visible then
           (if longitude1 fb > longitude2 fb
            then visible \<and> (snd p > longitude1 fb \<or> snd p < longitude2 fb)
            else visible \<and> (snd p > longitude1 fb \<and> snd p < longitude2 fb))
         else visible)"

definition initialPositions :: "fov_bounds \<Rightarrow> vec list \<Rightarrow> (real \<times> real) list \<Rightarrow> pos list" where
  "initialPositions fb positions3D polygon_rad =
     map (\<lambda>i. \<lparr> pos_spherical = polygon_rad ! i,
                pos_vector = nth_opt positions3D (int i),
                pos_visible = inFov fb (polygon_rad ! i) \<rparr>)
         [0 ..< length polygon_rad]"

text \<open>
  The two cyclic neighbours of position \<open>i\<close> and the first visible one, as an index.
  A neighbour that is \<open>undefined\<close> makes \<open>neighbour.visible\<close> throw.
\<close>

definition visibleNeighbour :: "pos list \<Rightarrow> int \<Rightarrow> int \<Rightarrow> error + int option" where
  "visibleNeighbour positions nbVectors i =
     (let n1 = (if i = 0 then nbVectors - 1 else i - 1);
          n2 = (if i = nbVectors - 1 then 0 else i + 1)
      in case nth_opt positions n1 of
           None \<Rightarrow> Inl TypeError
         | Some a \<Rightarrow>
             if pos_visible a then Inr (Some n1)
             else (case nth_opt positions n2 of
                     None \<Rightarrow> Inl TypeError
                   | Some b \<Rightarrow> if pos_visible b then Inr (Some n2) else Inr None))"

text \<open>
  The \<open>reduce\<close> that queues the pairs (visible neighbour, invisible position), both as
  indices into \<open>positions\<close>.
\<close>

fun toBeComputed :: "pos list \<Rightarrow> int \<Rightarrow> nat list \<Rightarrow> error + (int \<times> nat) list" where
  "toBeComputed positions nbVectors [] = Inr []"
| "toBeComputed positions nbVectors (i # rest) =
     (if pos_visible (positions ! i) then toBeComputed positions nbVectors rest
      else (case visibleNeighbour positions nbVectors (int i) of
              Inl e \<Rightarrow> Inl e
            | Inr None \<Rightarrow> toBeComputed positions nbVectors rest
            | Inr (Some n) \<Rightarrow>
                (case toBeComputed positions nbVectors rest of
                   Inl e \<Rightarrow> Inl e
                 | Inr pairs \<Rightarrow> Inr ((n, i) # pairs))))"

text \<open>
  The \<open>forEach\<close> over the queued pairs: the invisible position gets the intersection as its
  vector and is visible iff there is one.
\<close>

fun computePairs :: "psv \<Rightarrow> vec list \<Rightarrow> (int \<times> nat) list \<Rightarrow> pos list \<Rightarrow> error + pos list" where
  "computePairs v fp [] positions = Inr positions"
| "computePairs v fp ((n, i) # pairs) positions =
     (case (pos_vector (positions ! nat n), pos_vector (positions ! i)) of
        (Some P1, Some P2) \<Rightarrow>
          (case computeIntermediaryPoint v fp P1 P2 of
             Inl e \<Rightarrow> Inl e
           | Inr c \<Rightarrow>
               computePairs v fp pairs
                 (positions [i := (positions ! i) \<lparr> pos_vector := c, pos_visible := (c \<noteq> None) \<rparr>]))
      | _ \<Rightarrow> Inl TypeError)"

text \<open>
  The final \<open>filter\<close> and \<open>map\<close>: the visible positions, in order, projected to the
  screen. Projecting \<open>undefined\<close> throws.
\<close>

fun projectVisible :: "psv \<Rightarrow> pos list \<Rightarrow> error + coords list" where
  "projectVisible v [] = Inr []"
| "projectVisible v (p # ps) =
     (if pos_visible p then
        (case pos_vector p of
           None \<Rightarrow> Inl TypeError
         | Some vector \<Rightarrow>
             (case projectVisible v ps of
                Inl e \<Rightarrow> Inl e
              | Inr cs \<Rightarrow> Inr (vector3ToViewerCoords v vector # cs)))
      else projectVisible v ps)"

definition getPolygonPositions ::
  "psv \<Rightarrow> fov_bounds \<Rightarrow> vec list \<Rightarrow> vec list \<Rightarrow> (real \<times> real) list \<Rightarrow> error + coords list" where
  "getPolygonPositions v fb fp positions3D polygon_rad =
     (let nbVectors = int (length positions3D);
          positions = initialPositions fb positions3D polygon_rad
      in case toBeComputed positions nbVectors [0 ..< length positions] of
           Inl e \<Rightarrow> Inl e
         | Inr pairs \<Rightarrow>
             (case computePairs v fp pairs positions of
                Inl e \<Rightarrow> Inl e
              | Inr positions' \<Rightarrow> projectVisible v positions'))"

section \<open>The per-frame projection pass\<close>

definition isMarkerVisible :: "psv \<Rightarrow> marker \<Rightarrow> vec \<Rightarrow> coords \<Rightarrow> bool" where
  "isMarkerVisible v m position3D position =
     (truthy (visible m) \<and>
      dot position3D (direction v) > 0 \<and>
      num_ge (num_add (c_left position) (width m)) (Finite 0) \<and>
      num_le (num_sub (c_left position) (width m)) (size_width v) \<and>
      num_ge (num_add (c_top position) (height m)) (Finite 0) \<and>
      num_le (num_sub (c_top position) (height m)) (size_height v))"

text \<open>
  \<open>_isPolygonVisible\<close> returns at its first statement, \<open>return true\<close>; the test written
  after it is never reached.
\<close>

definition isPolygonVisible :: "psv \<Rightarrow> marker \<Rightarrow> coords list \<Rightarrow> bool" where
  "isPolygonVisible v m positions = True"

text \<open>
  \<open>_getMarkerPosition\<close> returns the position and leaves the marker with the measured size
  when the size is dynamic.
\<close>

definition getMarkerPosition :: "psv \<Rightarrow> nat \<Rightarrow> marker \<Rightarrow> vec \<Rightarrow> coords \<times> marker" where
  "getMarkerPosition v r m position3D =
     (let m1 = (if dynamicSize m
                then (let rect = getBoundingClientRect v r
                      in m \<lparr> width := num_sub (r_right rect) (r_left rect),
                             height := num_sub (r_bottom rect) (r_top rect) \<rparr>)
                else m);
          position = vector3ToViewerCoords v position3D
      in (\<lparr> c_top = num_sub (c_top position) (num_mul (height m1) (c_top (anchor m1))),
            c_left = num_sub (c_left position) (num_mul (width m1) (c_left (anchor m1))) \<rparr>,
          m1))"

definition getPolygonDimensions :: "marker \<Rightarrow> coords list \<Rightarrow> coords \<times> marker" where
  "getPolygonDimensions m positions =
     (let minX = foldl (\<lambda>a pos. Math_min a (c_left pos)) Infinity positions;
          minY = foldl (\<lambda>a pos. Math_min a (c_top pos)) Infinity positions;
          maxX = foldl (\<lambda>a pos. Math_max a (c_left pos)) NegInfinity positions;
          maxY = foldl (\<lambda>a pos. Math_max a (c_top pos)) NegInfinity positions
      in (\<lparr> c_top = minY, c_left = minX \<rparr>,
          m \<lparr> width := num_sub maxX minX, height := num_sub maxY minY \<rparr>))"

text \<open>The body of the loop of \<open>updatePositions\<close> for the marker at reference \<open>r\<close>.\<close>

definition updateOne :: "psv \<Rightarrow> fov_bounds \<Rightarrow> vec list \<Rightarrow> real \<Rightarrow> nat \<Rightarrow> marker \<Rightarrow> error + marker" where
  "updateOne v fb fp rotation r m =
     (case geometry m of
        Polygon positions3D polygon_rad \<Rightarrow>
          (case getPolygonPositions v fb fp positions3D polygon_rad of
             Inl e \<Rightarrow> Inl e
           | Inr positions \<Rightarrow>
               if isPolygonVisible v m positions then
                 (let (dim, m1) = getPolygonDimensions m positions
                  in Inr (m1 \<lparr> position2D := Some dim, el_points := positions, el_visible := True \<rparr>))
               else Inr (m \<lparr> position2D := None, el_visible := False \<rparr>))
      | Point position3D \<Rightarrow>
          (let (position, m1) = getMarkerPosition v r m position3D
           in if isMarkerVisible v m1 position3D position
              then Inr (m1 \<lparr> position2D := Some position,
                             el_transform := Some (position, rotation),
                             el_visible := True \<rparr>)
              else Inr (m1 \<lparr> position2D := None, el_visible := False \<rparr>)))"

fun updateEach ::
  "psv \<Rightarrow> fov_bounds \<Rightarrow> vec list \<Rightarrow> real \<Rightarrow> (string \<times> nat) list \<Rightarrow> hud \<Rightarrow> unit result \<times> hud" where
  "updateEach v fb fp rotation [] s = (Return (), s)"
| "updateEach v fb fp rotation ((i, r) # rest) s =
     (case updateOne v fb fp rotation r (heap s r) of
        Inl e \<Rightarrow> (Throw e, s)
      | Inr m \<Rightarrow> updateEach v fb fp rotation rest (s \<lparr> heap := (heap s) (r := m) \<rparr>))"

definition computeFovBounds :: "psv \<Rightarrow> fov_bounds" where
  "computeFovBounds v =
     (let lat1 = latitude v - vFov v * Deg2Rad v / 2;
          lat2 = latitude v + vFov v * Deg2Rad v / 2
      in \<lparr> longitude1 = parseAngle v (longitude v - hFov v * Deg2Rad v / 2),
           longitude2 = parseAngle v (longitude v + hFov v * Deg2Rad v / 2),
           latitude1 = lat1,
           latitude2 = lat2,
           latitudeCrossOrigin = (lat1 > lat2) \<rparr>)"

definition computeFrustrumPoints :: "psv \<Rightarrow> fov_bounds \<Rightarrow> vec list" where
  "computeFrustrumPoints v fb =
     [sphericalCoordsToVector3 v (longitude1 fb) (latitude2 fb),
      sphericalCoordsToVector3 v (longitude2 fb) (latitude2 fb),
      sphericalCoordsToVector3 v (longitude2 fb) (latitude1 fb),
      sphericalCoordsToVector3 v (longitude1 fb) (latitude1 fb)]"

definition rotationOf :: "psv \<Rightarrow> real" where
  "rotationOf v = (if \<not> isGyroscopeEnabled v then 0 else camera_rotation_z v / pi * 180)"

definition updatePositions :: "psv \<Rightarrow> hud \<Rightarrow> unit result \<times> hud" where
  "updatePositions v s =
     (let rotation = rotationOf v;
          fb = computeFovBounds v;
          fp = computeFrustrumPoints v fb;
          s1 = s \<lparr> fovBounds := Some fb, frustrumPoints := fp \<rparr>
      in updateEach v fb fp rotation (markers s1) s1)"

section \<open>The marker registry\<close>

text \<open>
  The argument of \<open>getMarker\<close>: a raw id, or an object whose \<open>id\<close> is read (an object
  without one gives the key \<open>undefined\<close>).
\<close>

datatype marker_arg = RawId string | WithId "string option"

fun idOf :: "marker_arg \<Rightarrow> string" where
  "idOf (RawId i) = i"
| "idOf (WithId (Some i)) = i"
| "idOf (WithId None) = ''undefined''"

definition getMarker :: "marker_arg \<Rightarrow> hud \<Rightarrow> nat result" where
  "getMarker a s =
     (case map_of (markers s) (idOf a) of
        None \<Rightarrow> Throw (CannotFind (idOf a))
      | Some r \<Rightarrow> Return r)"

definition getCurrentMarker :: "hud \<Rightarrow> nat option" where
  "getCurrentMarker s = currentMarker s"

text \<open>
  The parameter \<open>render\<close> is \<open>None\<close> when the caller leaves it out; only the value
  \<open>false\<close> suppresses the pass.
\<close>

definition addMarker :: "psv \<Rightarrow> properties \<Rightarrow> bool option \<Rightarrow> hud \<Rightarrow> nat result \<times> hud" where
  "addMarker v properties render s =
     (case p_id properties of
        None \<Rightarrow> (Throw MissingMarkerId, s)
      | Some i \<Rightarrow>
          if i = [] then (Throw MissingMarkerId, s)
          else if map_of (markers s) i \<noteq> None then (Throw (AlreadyExists i), s)
          else
            (let r = nextRef s;
                 m = PSVMarker properties;
                 s1 = s \<lparr> heap := (heap s) (r := m), nextRef := Suc r \<rparr>;
                 s2 = (if isNormal m
                       then s1 \<lparr> container_children := container_children s1 @ [r] \<rparr>
                       else s1 \<lparr> svg_children := svg_children s1 @ [r] \<rparr>);
                 s3 = s2 \<lparr> markers := AList.update (marker_id m) r (markers s2) \<rparr>
             in if render \<noteq> Some False
                then (case updatePositions v s3 of
                        (Throw e, s4) \<Rightarrow> (Throw e, s4)
                      | (Return _, s4) \<Rightarrow> (Return r, s4))
                else (Return r, s3)))"

definition updateMarker :: "psv \<Rightarrow> properties \<Rightarrow> bool option \<Rightarrow> hud \<Rightarrow> nat result \<times> hud" where
  "updateMarker v input render s =
     (case getMarker (WithId (p_id input)) s of
        Throw e \<Rightarrow> (Throw e, s)
      | Return r \<Rightarrow>
          (let s1 = s \<lparr> heap := (heap s) (r := marker_update input (heap s r)) \<rparr>
           in if render \<noteq> Some False
              then (case updatePositions v s1 of
                      (Throw e, s2) \<Rightarrow> (Throw e, s2)
                    | (Return _, s2) \<Rightarrow> (Return r, s2))
              else (Return r, s1)))"

text \<open>\<open>removeChild\<close> throws when the node is not a child.\<close>

definition removeChild :: "nat list \<Rightarrow> nat \<Rightarrow> error + nat list" where
  "removeChild children r = (if r \<in> set children then Inr (remove1 r children) else Inl NotAChild)"

definition removeMarker :: "psv \<Rightarrow> marker_arg \<Rightarrow> bool option \<Rightarrow> hud \<Rightarrow> unit result \<times> hud" where
  "removeMarker v a render s =
     (case getMarker a s of
        Throw e \<Rightarrow> (Throw e, s)
      | Return r \<Rightarrow>
          (case (if isNormal (heap s r)
                 then map_sum (\<lambda>e. e) (\<lambda>c. s \<lparr> container_children := c \<rparr>)
                        (removeChild (container_children s) r)
                 else map_sum (\<lambda>e. e) (\<lambda>c. s \<lparr> svg_children := c \<rparr>)
                        (removeChild (svg_children s) r)) of
             Inl e \<Rightarrow> (Throw e, s)
           | Inr s1 \<Rightarrow>
               (let s2 = (if hoveringMarker s1 = Some r then s1 \<lparr> tooltip_shown := None \<rparr> else s1);
                    s3 = s2 \<lparr> markers := AList.delete (marker_id (heap s2 r)) (markers s2) \<rparr>
                in if render \<noteq> Some False then updatePositions v s3 else (Return (), s3))))"

text \<open>
  \<open>clearMarkers\<close> removes the keys that \<open>Object.keys\<close> listed at the start, each with
  \<open>render = false\<close>.
\<close>

fun removeKeys :: "psv \<Rightarrow> string list \<Rightarrow> hud \<Rightarrow> unit result \<times> hud" where
  "removeKeys v [] s = (Return (), s)"
| "removeKeys v (k # ks) s =
     (case removeMarker v (RawId k) (Some False) s of
        (Throw e, s1) \<Rightarrow> (Throw e, s1)
      | (Return _, s1) \<Rightarrow> removeKeys v ks s1)"

definition clearMarkers :: "psv \<Rightarrow> bool option \<Rightarrow> hud \<Rightarrow> unit result \<times> hud" where
  "clearMarkers v render s =
     (case removeKeys v (map fst (markers s)) s of
        (Throw e, s1) \<Rightarrow> (Throw e, s1)
      | (Return _, s1) \<Rightarrow> if render \<noteq> Some False then updatePositions v s1 else (Return (), s1))"

text \<open>\<open>gotoMarker\<close> hands the marker to the viewer's animation and leaves the HUD as it is.\<close>

definition gotoMarker :: "psv \<Rightarrow> marker_arg \<Rightarrow> hud \<Rightarrow> unit result \<times> hud" where
  "gotoMarker v a s =
     (case getMarker a s of
        Throw e \<Rightarrow> (Throw e, s)
      | Return r \<Rightarrow> (Return (), s))"

definition hideMarker :: "psv \<Rightarrow> marker_arg \<Rightarrow> hud \<Rightarrow> unit result \<times> hud" where
  "hideMarker v a s =
     (case getMarker a s of
        Throw e \<Rightarrow> (Throw e, s)
      | Return r \<Rightarrow>
          updatePositions v (s \<lparr> heap := (heap s) (r := (heap s r) \<lparr> visible := JBool False \<rparr>) \<rparr>))"

definition showMarker :: "psv \<Rightarrow> marker_arg \<Rightarrow> hud \<Rightarrow> unit result \<times> hud" where
  "showMarker v a s =
     (case getMarker a s of
        Throw e \<Rightarrow> (Throw e, s)
      | Return r \<Rightarrow>
          updatePositions v (s \<lparr> heap := (heap s) (r := (heap s r) \<lparr> visible := JBool True \<rparr>) \<rparr>))"

definition toggleMarker :: "psv \<Rightarrow> marker_arg \<Rightarrow> hud \<Rightarrow> unit result \<times> hud" where
  "toggleMarker v a s =
     (case getMarker a s of
        Throw e \<Rightarrow> (Throw e, s)
      | Return r \<Rightarrow>
          updatePositions v
            (s \<lparr> heap := (heap s) (r := (heap s r) \<lparr> visible := xorTrue (visible (heap s r)) \<rparr>) \<rparr>))"

section \<open>Hover, tooltip and selection\<close>

text \<open>
  What the handlers read from a mouse event: the marker owning the target element
  (\<open>e.target.psvMarker\<close>), whether the target and the related target lie inside the tooltip,
  and the pointer position.
\<close>

record mouse_event =
  target_marker :: "nat option"
  target_in_tooltip :: bool
  related_in_tooltip :: bool
  clientX :: num
  clientY :: num

definition onMouseEnter :: "psv \<Rightarrow> mouse_event \<Rightarrow> hud \<Rightarrow> unit result \<times> hud" where
  "onMouseEnter v e s =
     (case target_marker e of
        None \<Rightarrow> (Return (), s)
      | Some r \<Rightarrow>
          (case tooltip (heap s r) of
             None \<Rightarrow> (Return (), s)
           | Some t \<Rightarrow>
               if isPolygon (heap s r) then (Return (), s)
               else
                 (let s1 = s \<lparr> hoveringMarker := Some r \<rparr>
                  in case position2D (heap s1 r) of
                       None \<Rightarrow> (Throw TypeError, s1)
                     | Some p \<Rightarrow>
                         (Return (),
                          s1 \<lparr> tooltip_shown :=
                                 Some \<lparr> tc_content = t_content t,
                                        tc_position = t_position t,
                                        tc_top = c_top p,
                                        tc_left = c_left p,
                                        tc_marker = MarkerObject r \<rparr> \<rparr>))))"

definition onMouseLeave :: "psv \<Rightarrow> mouse_event \<Rightarrow> hud \<Rightarrow> unit result \<times> hud" where
  "onMouseLeave v e s =
     (case target_marker e of
        None \<Rightarrow> (Return (), s)
      | Some r \<Rightarrow>
          if isPolygon (heap s r) \<and> related_in_tooltip e then (Return (), s)
          else (Return (), s \<lparr> hoveringMarker := None, tooltip_shown := None \<rparr>))"

definition onMouseMove :: "psv \<Rightarrow> mouse_event \<Rightarrow> hud \<Rightarrow> unit result \<times> hud" where
  "onMouseMove v e s =
     (if moving v then (Return (), s)
      else
        (let chosen =
               (case target_marker e of
                  Some r \<Rightarrow>
                    if tooltip (heap s r) \<noteq> None \<and> isPolygon (heap s r) then Some r
                    else if target_in_tooltip e then hoveringMarker s else None
                | None \<Rightarrow> if target_in_tooltip e then hoveringMarker s else None)
         in case chosen of
              Some r \<Rightarrow>
                (let s1 = s \<lparr> hoveringMarker := Some r \<rparr>
                 in case tooltip (heap s1 r) of
                      None \<Rightarrow> (Throw TypeError, s1)
                    | Some t \<Rightarrow>
                        (Return (),
                         s1 \<lparr> tooltip_shown :=
                                Some \<lparr> tc_content = t_content t,
                                       tc_position = t_position t,
                                       tc_top = num_sub (num_sub (clientY e) (container_top v))
                                                  (num_mul (arrow_size v) (Finite (1 / 2))),
                                       tc_left = num_sub (num_sub (clientX e) (container_left v))
                                                   (arrow_size v),
                                       tc_marker = Box (num_mul (arrow_size v) (Finite 2))
                                                       (num_mul (arrow_size v) (Finite 2)) \<rparr> \<rparr>))
            | None \<Rightarrow>
                (case hoveringMarker s of
                   Some h \<Rightarrow>
                     if isPolygon (heap s h) then (Return (), s \<lparr> tooltip_shown := None \<rparr>)
                     else (Return (), s)
                 | None \<Rightarrow> (Return (), s))))"

text \<open>
  \<open>_onClick\<close>: \<open>clicked\<close> is the marker of the closest marker element of the click target,
  if any. Besides the state, the handler acts on its two arguments: it may store the marker
  in the event data and may stop the propagation of the event.
\<close>

record click_effects =
  data_marker :: "nat option"
  stopPropagation :: bool

definition onClick :: "psv \<Rightarrow> nat option \<Rightarrow> hud \<Rightarrow> click_effects \<times> hud" where
  "onClick v clicked s =
     (let (eff1, s1) =
            (case clicked of
               Some r \<Rightarrow>
                 (let s' = s \<lparr> currentMarker := Some r,
                               triggered := triggered s @ [(''select-marker'', r)] \<rparr>
                  in if click_event_on_marker v
                     then (\<lparr> data_marker = Some r, stopPropagation = False \<rparr>, s')
                     else (\<lparr> data_marker = None, stopPropagation = True \<rparr>, s'))
             | None \<Rightarrow>
                 (case currentMarker s of
                    Some c \<Rightarrow>
                      (\<lparr> data_marker = None, stopPropagation = False \<rparr>,
                       s \<lparr> triggered := triggered s @ [(''unselect-marker'', c)],
                           currentMarker := None \<rparr>)
                  | None \<Rightarrow> (\<lparr> data_marker = None, stopPropagation = False \<rparr>, s)))
      in case (case clicked of Some r \<Rightarrow> content (heap s1 r) | None \<Rightarrow> None) of
           Some c \<Rightarrow> (eff1, s1 \<lparr> panel_content := Some c \<rparr>)
         | None \<Rightarrow>
             if panel_content s1 \<noteq> None
             then (eff1 \<lparr> stopPropagation := True \<rparr>, s1 \<lparr> panel_content := None \<rparr>)
             else (eff1, s1))"

section \<open>The earlier revision of the component\<close>

text \<open>
  The source file holds two revisions of the component. The earlier one (its first 499
  lines) differs from the later one, modelled above, in \<open>addMarker\<close>, \<open>updatePositions\<close>,
  \<open>_isPolygonVisible\<close> and \<open>_getPolygonPositions\<close>; these four are modelled here with the
  suffix \<open>_r1\<close>. It has no field-of-view bounds: every vertex of a polygon is projected, and
  a polygon is visible when some vertex faces the camera and projects into the viewport.
\<close>

definition getPolygonPositions_r1 :: "psv \<Rightarrow> vec list \<Rightarrow> coords list" where
  "getPolygonPositions_r1 v positions3D = map (vector3ToViewerCoords v) positions3D"

definition isPolygonVisible_r1 :: "psv \<Rightarrow> marker \<Rightarrow> vec list \<Rightarrow> coords list \<Rightarrow> bool" where
  "isPolygonVisible_r1 v m positions3D positions =
     (truthy (visible m) \<and>
      list_ex (\<lambda>(pos, p3).
                 dot p3 (direction v) > 0 \<and>
                 num_ge (c_left pos) (Finite 0) \<and>
                 num_le (c_left pos) (size_width v) \<and>
                 num_ge (c_top pos) (Finite 0) \<and>
                 num_le (c_top pos) (size_height v))
              (zip positions positions3D))"

definition updateOne_r1 :: "psv \<Rightarrow> real \<Rightarrow> nat \<Rightarrow> marker \<Rightarrow> marker" where
  "updateOne_r1 v rotation r m =
     (case geometry m of
        Polygon positions3D polygon_rad \<Rightarrow>
          (let positions = getPolygonPositions_r1 v positions3D
           in if isPolygonVisible_r1 v m positions3D positions then
                (let (dim, m1) = getPolygonDimensions m positions
                 in m1 \<lparr> position2D := Some dim, el_points := positions, el_visible := True \<rparr>)
              else m \<lparr> position2D := None, el_visible := False \<rparr>)
      | Point position3D \<Rightarrow>
          (let (position, m1) = getMarkerPosition v r m position3D
           in if isMarkerVisible v m1 position3D position
              then m1 \<lparr> position2D := Some position,
                        el_transform := Some (position, rotation),
                        el_visible := True \<rparr>
              else m1 \<lparr> position2D := None, el_visible := False \<rparr>))"

fun updateEach_r1 :: "psv \<Rightarrow> real \<Rightarrow> (string \<times> nat) list \<Rightarrow> hud \<Rightarrow> hud" where
  "updateEach_r1 v rotation [] s = s"
| "updateEach_r1 v rotation ((i, r) # rest) s =
     updateEach_r1 v rotation rest (s \<lparr> heap := (heap s) (r := updateOne_r1 v rotation r (heap s r)) \<rparr>)"

definition updatePositions_r1 :: "psv \<Rightarrow> hud \<Rightarrow> hud" where
  "updatePositions_r1 v s = updateEach_r1 v (rotationOf v) (markers s) s"

text \<open>
  \<open>addMarker\<close> of the earlier revision ends without a \<open>return\<close> statement: a call that does
  not throw evaluates to \<open>undefined\<close>, here \<open>None\<close>; a marker would be \<open>Some\<close> reference.
\<close>

definition addMarker_r1 :: "psv \<Rightarrow> properties \<Rightarrow> bool option \<Rightarrow> hud \<Rightarrow> nat option result \<times> hud" where
  "addMarker_r1 v properties render s =
     (case p_id properties of
        None \<Rightarrow> (Throw MissingMarkerId, s)
      | Some i \<Rightarrow>
          if i = [] then (Throw MissingMarkerId, s)
          else if map_of (markers s) i \<noteq> None then (Throw (AlreadyExists i), s)
          else
            (let r = nextRef s;
                 m = PSVMarker properties;
                 s1 = s \<lparr> heap := (heap s) (r := m), nextRef := Suc r \<rparr>;
                 s2 = (if isNormal m
                       then s1 \<lparr> container_children := container_children s1 @ [r] \<rparr>
                       else s1 \<lparr> svg_children := svg_children s1 @ [r] \<rparr>);
                 s3 = s2 \<lparr> markers := AList.update (marker_id m) r (markers s2) \<rparr>
             in if render \<noteq> Some False
                then (Return None, updatePositions_r1 v s3)
                else (Return None, s3)))"

section \<open>Operations as data\<close>

text \<open>
  The public methods and the event handlers of the later revision as one datatype, and the
  state each leaves behind, whether it returns or throws.
\<close>

datatype operation =
    AddMarker properties "bool option"
  | UpdateMarker properties "bool option"
  | RemoveMarker marker_arg "bool option"
  | ClearMarkers "bool option"
  | GotoMarker marker_arg
  | HideMarker marker_arg
  | ShowMarker marker_arg
  | ToggleMarker marker_arg
  | UpdatePositions
  | MouseEnter mouse_event
  | MouseLeave mouse_event
  | MouseMove mouse_event
  | Click "nat option"

fun perform :: "psv \<Rightarrow> operation \<Rightarrow> hud \<Rightarrow> hud" where
  "perform v (AddMarker p render) s = snd (addMarker v p render s)"
| "perform v (UpdateMarker p render) s = snd (updateMarker v p render s)"
| "perform v (RemoveMarker a render) s = snd (removeMarker v a render s)"
| "perform v (ClearMarkers render) s = snd (clearMarkers v render s)"
| "perform v (GotoMarker a) s = snd (gotoMarker v a s)"
| "perform v (HideMarker a) s = snd (hideMarker v a s)"
| "perform v (ShowMarker a) s = snd (showMarker v a s)"
| "perform v (ToggleMarker a) s = snd (toggleMarker v a s)"
| "perform v UpdatePositions s = snd (updatePositions v s)"
| "perform v (MouseEnter e) s = snd (onMouseEnter v e s)"
| "perform v (MouseLeave e) s = snd (onMouseLeave v e s)"
| "perform v (MouseMove e) s = snd (onMouseMove v e s)"
| "perform v (Click c) s = snd (onClick v c s)"


text \<open>
  The invariant of the registry: keys are distinct and not empty, every entry's key is the
  id of the marker it refers to, and every reference in use lies below the next one to be
  allocated.
\<close>

definition registry_ok :: "hud \<Rightarrow> bool" where
  "registry_ok s =
     (distinct (map fst (markers s)) \<and>
      list_all (\<lambda>(k, r). k \<noteq> [] \<and> marker_id (heap s r) = k \<and> r < nextRef s) (markers s))"

text \<open>The state the constructor of the HUD leaves.\<close>

definition newHud :: "marker \<Rightarrow> hud" where
  "newHud filler =
     \<lparr> markers = [],
       heap = (\<lambda>r. filler),
       nextRef = 0,
       container_children = [],
       svg_children = [],
       currentMarker = None,
       hoveringMarker = None,
       fovBounds = None,
       frustrumPoints = [],
       tooltip_shown = None,
       panel_content = None,
       triggered = [] \<rparr>"

fun performAll :: "psv \<Rightarrow> operation list \<Rightarrow> hud \<Rightarrow> hud" where
  "performAll v [] s = s"
| "performAll v (op # ops) s = performAll v ops (perform v op s)"

text \<open>
  The values the HUD itself leaves in a \<open>visible\<close> flag: a boolean (constructor,
  \<open>hideMarker\<close>, \<open>showMarker\<close>) or one of the numbers 0 and 1 (\<open>toggleMarker\<close>).
\<close>

fun booleanOrBit :: "jsflag \<Rightarrow> bool" where
  "booleanOrBit (JBool b) = True"
| "booleanOrBit (JNum n) = (n = 0 \<or> n = 1)"

section \<open>A concrete viewer and concrete markers\<close>

text \<open>
  Modelled from the spec: the conversions of the viewer (\<open>vectorToSpherical\<close>,
  \<open>sphericalToVector\<close>, \<open>projectToScreen\<close>) and \<open>parseAngle\<close> of \<open>PSVUtils\<close>, none of
  which is among the sources. They are used only to run the component on concrete inputs;
  the general results below hold for every choice of these functions.
  The axes are those of the viewer: \<open>y\<close> points up and longitude 0 is the direction
  \<open>+z\<close>; \<open>parseAngle\<close> normalises an angle into \<open>[0, 2\<pi>)\<close>. The projection is a
  parallel projection onto the 800 by 600 viewport that sends the view direction to the
  centre (400, 300).
\<close>

definition atan2 :: "real \<Rightarrow> real \<Rightarrow> real" where
  "atan2 y x =
     (if x > 0 then arctan (y / x)
      else if x < 0 \<and> y \<ge> 0 then arctan (y / x) + pi
      else if x < 0 then arctan (y / x) - pi
      else if y > 0 then pi / 2
      else if y < 0 then - pi / 2
      else 0)"

definition vectorToSpherical :: "vec \<Rightarrow> spherical" where
  "vectorToSpherical a =
     (let phi = arccos (vy a / vlength a);
          theta = atan2 (vx a) (vz a)
      in \<lparr> s_latitude = pi / 2 - phi,
           s_longitude = (if theta < 0 then - theta else 2 * pi - theta) \<rparr>)"

definition sphericalToVector :: "real \<Rightarrow> real \<Rightarrow> vec" where
  "sphericalToVector lon lat = Vector3 (- cos lat * sin lon) (sin lat) (cos lat * cos lon)"

definition normaliseAngle :: "real \<Rightarrow> real" where
  "normaliseAngle a = a - 2 * pi * of_int \<lfloor>a / (2 * pi)\<rfloor>"

definition projectToScreen :: "vec \<Rightarrow> coords" where
  "projectToScreen a = \<lparr> c_top = Finite (300 - 300 * vy a), c_left = Finite (400 - 400 * vx a) \<rparr>"

text \<open>
  A viewer of 800 by 600 pixels looking along \<open>+z\<close> (longitude 0, latitude 0) with a
  field of view of 90 by 60 degrees.
\<close>

definition exampleViewer :: psv where
  "exampleViewer =
     \<lparr> direction = Vector3 0 0 1,
       size_width = Finite 800,
       size_height = Finite 600,
       longitude = 0,
       latitude = 0,
       hFov = 90,
       vFov = 60,
       moving = False,
       isGyroscopeEnabled = False,
       camera_rotation_z = 0,
       click_event_on_marker = True,
       arrow_size = Finite 10,
       container_top = Finite 0,
       container_left = Finite 0,
       vector3ToViewerCoords = projectToScreen,
       vector3ToSphericalCoords = vectorToSpherical,
       sphericalCoordsToVector3 = sphericalToVector,
       parseAngle = normaliseAngle,
       Deg2Rad = pi / 180,
       getBoundingClientRect =
         (\<lambda>r. \<lparr> r_left = Finite 0, r_right = Finite 0, r_top = Finite 0, r_bottom = Finite 0 \<rparr>) \<rparr>"

definition exampleProperties :: "string \<Rightarrow> geometry \<Rightarrow> properties" where
  "exampleProperties i g =
     \<lparr> p_id = Some i,
       p_geometry = g,
       p_visible = None,
       p_dynamicSize = False,
       p_anchor = \<lparr> c_top = Finite (1 / 2), c_left = Finite (1 / 2) \<rparr>,
       p_width = Finite 32,
       p_height = Finite 32,
       p_tooltip = Some \<lparr> t_content = ''Lorem ipsum'', t_position = ''top'' \<rparr>,
       p_content = None \<rparr>"

definition exampleHud :: hud where
  "exampleHud = newHud (PSVMarker (exampleProperties ''none'' (Point (Vector3 0 0 1))))"

text \<open>A point marker straight ahead, one behind the camera, and a triangle above the view.\<close>

definition frontPoint :: properties where
  "frontPoint = exampleProperties ''front'' (Point (Vector3 0 0 1))"

definition backPoint :: properties where
  "backPoint = exampleProperties ''back'' (Point (Vector3 0 0 (- 1)))"

definition highTriangle :: properties where
  "highTriangle =
     exampleProperties ''high''
       (Polygon [sphericalToVector 0 1, sphericalToVector (1 / 10) 1, sphericalToVector 0 (11 / 10)]
                [(1, 0), (1, 1 / 10), (11 / 10, 0)])"

text \<open>
  A thin triangle that straddles the right edge of the field of view (longitude
  \<open>\<pi>/4\<close>): the vertices at longitude 0 are inside, the vertex at longitude \<open>\<pi>/3\<close> is
  outside.
\<close>

definition straddlingTriangle :: properties where
  "straddlingTriangle =
     exampleProperties ''straddle''
       (Polygon [sphericalToVector 0 0, sphericalToVector (pi / 3) 0, sphericalToVector 0 (1 / 10)]
                [(0, 0), (0, pi / 3), (1 / 10, 0)])"

text \<open>
  The HUD after \<open>addMarker(frontPoint)\<close> on a new HUD, and after the pointer has then
  entered that marker.
\<close>

definition frontHud :: hud where
  "frontHud = snd (addMarker exampleViewer frontPoint None exampleHud)"

definition enterFront :: mouse_event where
  "enterFront =
     \<lparr> target_marker = Some 0, target_in_tooltip = False, related_in_tooltip = False,
       clientX = Finite 400, clientY = Finite 300 \<rparr>"

definition hoveringHud :: hud where
  "hoveringHud = snd (onMouseEnter exampleViewer enterFront frontHud)"

section \<open>Frame and invariant lemmas\<close>

lemma updateOne_id: "updateOne v fb fp rot r m = Inr m' \<Longrightarrow> marker_id m' = marker_id m"
  by (auto simp: updateOne_def getPolygonDimensions_def getMarkerPosition_def Let_def
      split: geometry.splits sum.splits if_splits prod.splits)

lemma updateOne_visible: "updateOne v fb fp rot r m = Inr m' \<Longrightarrow> visible m' = visible m"
  by (auto simp: updateOne_def getPolygonDimensions_def getMarkerPosition_def Let_def
      split: geometry.splits sum.splits if_splits prod.splits)

lemma updateEach_frame:
  "updateEach v fb fp rot ms s = (res, s') \<Longrightarrow>
     markers s' = markers s \<and> nextRef s' = nextRef s \<and> hoveringMarker s' = hoveringMarker s
     \<and> currentMarker s' = currentMarker s \<and> tooltip_shown s' = tooltip_shown s
     \<and> container_children s' = container_children s \<and> svg_children s' = svg_children s
     \<and> (\<forall>r. marker_id (heap s' r) = marker_id (heap s r))
     \<and> (\<forall>r. visible (heap s' r) = visible (heap s r))"
proof (induction ms arbitrary: s)
  case Nil
  then show ?case by simp
next
  case (Cons a ms)
  obtain i r where a: "a = (i, r)" by (cases a)
  show ?case
  proof (cases "updateOne v fb fp rot r (heap s r)")
    case (Inl e)
    with Cons.prems a show ?thesis by simp
  next
    case (Inr m)
    with Cons.prems a have "updateEach v fb fp rot ms (s \<lparr> heap := (heap s) (r := m) \<rparr>) = (res, s')"
      by simp
    from Cons.IH[OF this] updateOne_id[OF Inr] updateOne_visible[OF Inr] show ?thesis
      by simp
  qed
qed


lemma updatePositions_frame:
  "updatePositions v s = (res, s') \<Longrightarrow>
     markers s' = markers s \<and> nextRef s' = nextRef s \<and> hoveringMarker s' = hoveringMarker s
     \<and> currentMarker s' = currentMarker s \<and> tooltip_shown s' = tooltip_shown s
     \<and> container_children s' = container_children s \<and> svg_children s' = svg_children s
     \<and> (\<forall>r. marker_id (heap s' r) = marker_id (heap s r))
     \<and> (\<forall>r. visible (heap s' r) = visible (heap s r))"
  unfolding updatePositions_def Let_def
  by (drule updateEach_frame) simp

lemma registry_ok_cong:
  "registry_ok s \<Longrightarrow> markers s' = markers s \<Longrightarrow> nextRef s' = nextRef s \<Longrightarrow>
   (\<forall>r. marker_id (heap s' r) = marker_id (heap s r)) \<Longrightarrow> registry_ok s'"
  by (simp add: registry_ok_def)

lemma updatePositions_ok: "registry_ok s \<Longrightarrow> registry_ok (snd (updatePositions v s))"
  using updatePositions_frame[of v s "fst (updatePositions v s)" "snd (updatePositions v s)"]
  by (auto intro: registry_ok_cong)

lemma updatePositions_markers: "markers (snd (updatePositions v s)) = markers s"
  using updatePositions_frame[of v s "fst (updatePositions v s)" "snd (updatePositions v s)"]
  by simp

lemma registry_lookup:
  "registry_ok s \<Longrightarrow> map_of (markers s) i = Some r \<Longrightarrow>
     i \<noteq> [] \<and> marker_id (heap s r) = i \<and> r < nextRef s"
  by (auto simp: registry_ok_def list_all_iff dest!: map_of_SomeD)

lemma update_fresh: "k \<notin> fst ` set al \<Longrightarrow> AList.update k x al = al @ [(k, x)]"
  by (induction al) auto

lemma addMarker_ok: "registry_ok s \<Longrightarrow> registry_ok (snd (addMarker v p render s))"
proof -
  assume ok: "registry_ok s"
  show ?thesis
  proof (cases "p_id p")
    case None
    with ok show ?thesis by (simp add: addMarker_def)
  next
    case (Some i)
    show ?thesis
    proof (cases "i = [] \<or> map_of (markers s) i \<noteq> None")
      case True
      with ok Some show ?thesis by (auto simp: addMarker_def)
    next
      case False
      define s3 where "s3 = (let r = nextRef s; m = PSVMarker p;
                 s1 = s \<lparr> heap := (heap s) (r := m), nextRef := Suc r \<rparr>;
                 s2 = (if isNormal m
                       then s1 \<lparr> container_children := container_children s1 @ [r] \<rparr>
                       else s1 \<lparr> svg_children := svg_children s1 @ [r] \<rparr>)
              in s2 \<lparr> markers := AList.update (marker_id m) r (markers s2) \<rparr>)"
      from False have fresh: "i \<notin> fst ` set (markers s)"
        by (simp add: map_of_eq_None_iff)
      have mk: "markers s3 = markers s @ [(i, nextRef s)]"
        and hp: "heap s3 = (heap s) (nextRef s := PSVMarker p)"
        and nr: "nextRef s3 = Suc (nextRef s)"
        using Some fresh by (simp_all add: s3_def Let_def PSVMarker_def update_fresh)
      have ok3: "registry_ok s3"
        using ok False fresh Some
        by (auto simp: registry_ok_def mk hp nr list_all_iff PSVMarker_def less_Suc_eq)
      have "snd (addMarker v p render s) = (if render \<noteq> Some False then snd (updatePositions v s3) else s3)"
        using False Some
        by (auto simp: addMarker_def s3_def Let_def split: prod.splits result.splits)
      with ok3 show ?thesis by (simp add: updatePositions_ok)
    qed
  qed
qed


lemma updatePositions_ok_eq: "updatePositions v s = (res, s') \<Longrightarrow> registry_ok s \<Longrightarrow> registry_ok s'"
  using updatePositions_ok[of s v] by simp

lemma updatePositions_markers_eq: "updatePositions v s = (res, s') \<Longrightarrow> markers s' = markers s"
  using updatePositions_markers[of v s] by simp

lemma heap_update_ok:
  "registry_ok s \<Longrightarrow> marker_id m = marker_id (heap s r) \<Longrightarrow>
     registry_ok (s \<lparr> heap := (heap s) (r := m) \<rparr>)"
  by (auto simp: registry_ok_def list_all_iff)

lemma marker_update_id: "marker_id (marker_update p m) = marker_id m"
  by (simp add: marker_update_def)

lemma updateMarker_ok: "registry_ok s \<Longrightarrow> registry_ok (snd (updateMarker v p render s))"
  by (auto simp: updateMarker_def Let_def marker_update_id
      intro!: heap_update_ok dest!: updatePositions_ok_eq split: result.splits prod.splits)


lemma delete_ok:
  assumes "registry_ok s" "markers s' = AList.delete k (markers s)" "nextRef s' = nextRef s"
    "\<forall>x. marker_id (heap s' x) = marker_id (heap s x)"
  shows "registry_ok s'"
proof -
  have "distinct (map fst (markers s'))"
    using assms by (simp add: registry_ok_def distinct_delete)
  moreover have "set (markers s') \<subseteq> set (markers s)"
    using assms by (auto simp: AList.delete_eq)
  ultimately show ?thesis
    using assms by (auto simp: registry_ok_def list_all_iff)
qed

text \<open>
  What \<open>removeMarker\<close> leaves: either it throws with the state untouched, or it got past
  the lookup and the detaching of the element.
\<close>

lemma removeMarker_cases:
  assumes "removeMarker v a render s = (res, s')"
  shows "(s' = s \<and> (\<exists>e. res = Throw e))
       \<or> (\<exists>r. getMarker a s = Return r
              \<and> markers s' = AList.delete (marker_id (heap s r)) (markers s)
              \<and> nextRef s' = nextRef s
              \<and> hoveringMarker s' = hoveringMarker s
              \<and> (hoveringMarker s = Some r \<longrightarrow> tooltip_shown s' = None)
              \<and> (\<forall>x. marker_id (heap s' x) = marker_id (heap s x))
              \<and> (\<forall>x. visible (heap s' x) = visible (heap s x)))"
proof (cases "getMarker a s")
  case (Throw e)
  with assms show ?thesis by (auto simp: removeMarker_def)
next
  case (Return r)
  define d where "d = (if isNormal (heap s r)
                 then map_sum (\<lambda>e. e) (\<lambda>c. s \<lparr> container_children := c \<rparr>)
                        (removeChild (container_children s) r)
                 else map_sum (\<lambda>e. e) (\<lambda>c. s \<lparr> svg_children := c \<rparr>)
                        (removeChild (svg_children s) r))"
  show ?thesis
  proof (cases d)
    case (Inl e)
    with assms Return show ?thesis by (auto simp: removeMarker_def d_def[symmetric])
  next
    case (Inr s1)
    then have s1: "markers s1 = markers s" "heap s1 = heap s" "nextRef s1 = nextRef s"
      "hoveringMarker s1 = hoveringMarker s"
      by (auto simp: d_def removeChild_def split: if_splits)
    define s3 where "s3 = (let s2 = (if hoveringMarker s1 = Some r then s1 \<lparr> tooltip_shown := None \<rparr> else s1)
                 in s2 \<lparr> markers := AList.delete (marker_id (heap s2 r)) (markers s2) \<rparr>)"
    have s3: "markers s3 = AList.delete (marker_id (heap s r)) (markers s)" "heap s3 = heap s"
      "nextRef s3 = nextRef s" "hoveringMarker s3 = hoveringMarker s"
      "hoveringMarker s = Some r \<longrightarrow> tooltip_shown s3 = None"
      by (auto simp: s3_def s1 Let_def)
    have res: "(res, s') = (if render \<noteq> Some False then updatePositions v s3 else (Return (), s3))"
      using assms Return Inr by (auto simp: removeMarker_def d_def[symmetric] s3_def Let_def)
    show ?thesis
    proof (cases "render \<noteq> Some False")
      case True
      with res have "updatePositions v s3 = (res, s')" by simp
      from updatePositions_frame[OF this] s3 Return show ?thesis by simp
    next
      case False
      with res s3 Return show ?thesis by simp
    qed
  qed
qed

lemma removeMarker_ok: "registry_ok s \<Longrightarrow> registry_ok (snd (removeMarker v a render s))"
proof -
  assume ok: "registry_ok s"
  obtain res s' where eq: "removeMarker v a render s = (res, s')" by force
  from removeMarker_cases[OF eq] ok have "registry_ok s'"
    by (auto intro: delete_ok)
  with eq show ?thesis by simp
qed


lemma removeKeys_ok: "registry_ok s \<Longrightarrow> registry_ok (snd (removeKeys v ks s))"
proof (induction ks arbitrary: s)
  case Nil
  then show ?case by simp
next
  case (Cons k ks)
  obtain res s1 where eq: "removeMarker v (RawId k) (Some False) s = (res, s1)" by force
  from removeMarker_ok[OF Cons.prems, of v "RawId k" "Some False"] eq have "registry_ok s1" by simp
  with Cons.IH eq show ?case by (cases res) simp_all
qed

lemma clearMarkers_ok: "registry_ok s \<Longrightarrow> registry_ok (snd (clearMarkers v render s))"
proof -
  assume ok: "registry_ok s"
  obtain res s1 where eq: "removeKeys v (map fst (markers s)) s = (res, s1)" by force
  from removeKeys_ok[OF ok, of v "map fst (markers s)"] eq have "registry_ok s1" by simp
  with eq show ?thesis
    by (cases res) (auto simp: clearMarkers_def intro: updatePositions_ok)
qed

lemma flag_ok: "registry_ok s \<Longrightarrow> registry_ok (s \<lparr> heap := (heap s) (r := (heap s r) \<lparr> visible := f \<rparr>) \<rparr>)"
  by (rule heap_update_ok) simp_all

lemma perform_ok: "registry_ok s \<Longrightarrow> registry_ok (perform v op s)"
proof (cases op)
  case (AddMarker p render)
  then show "registry_ok s \<Longrightarrow> ?thesis" by (simp add: addMarker_ok)
next
  case (UpdateMarker p render)
  then show "registry_ok s \<Longrightarrow> ?thesis" by (simp add: updateMarker_ok)
next
  case (RemoveMarker a render)
  then show "registry_ok s \<Longrightarrow> ?thesis" by (simp add: removeMarker_ok)
next
  case (ClearMarkers render)
  then show "registry_ok s \<Longrightarrow> ?thesis" by (simp add: clearMarkers_ok)
next
  case (GotoMarker a)
  then show "registry_ok s \<Longrightarrow> ?thesis" by (simp add: gotoMarker_def split: result.splits)
next
  case (HideMarker a)
  then show "registry_ok s \<Longrightarrow> ?thesis"
    by (auto simp: hideMarker_def intro!: updatePositions_ok flag_ok split: result.splits)
next
  case (ShowMarker a)
  then show "registry_ok s \<Longrightarrow> ?thesis"
    by (auto simp: showMarker_def intro!: updatePositions_ok flag_ok split: result.splits)
next
  case (ToggleMarker a)
  then show "registry_ok s \<Longrightarrow> ?thesis"
    by (auto simp: toggleMarker_def intro!: updatePositions_ok flag_ok split: result.splits)
next
  case UpdatePositions
  then show "registry_ok s \<Longrightarrow> ?thesis" by (simp add: updatePositions_ok)
next
  case (MouseEnter e)
  then show "registry_ok s \<Longrightarrow> ?thesis"
    by (auto simp: onMouseEnter_def registry_ok_def Let_def split: option.splits)
next
  case (MouseLeave e)
  then show "registry_ok s \<Longrightarrow> ?thesis"
    by (auto simp: onMouseLeave_def registry_ok_def split: option.splits)
next
  case (MouseMove e)
  then show "registry_ok s \<Longrightarrow> ?thesis"
    by (auto simp: onMouseMove_def registry_ok_def Let_def split: option.splits)
next
  case (Click c)
  then show "registry_ok s \<Longrightarrow> ?thesis"
    by (auto simp: onClick_def registry_ok_def Let_def split: option.splits prod.splits if_splits)
qed


lemma addMarker_markers:
  "markers (snd (addMarker v p render s)) =
     (case p_id p of
        None \<Rightarrow> markers s
      | Some i \<Rightarrow> if i = [] \<or> map_of (markers s) i \<noteq> None then markers s
                  else markers s @ [(i, nextRef s)])"
proof (cases "p_id p")
  case None
  then show ?thesis by (simp add: addMarker_def)
next
  case (Some i)
  show ?thesis
  proof (cases "i = [] \<or> map_of (markers s) i \<noteq> None")
    case True
    with Some show ?thesis by (auto simp: addMarker_def)
  next
    case False
    then have "i \<notin> fst ` set (markers s)" by (simp add: map_of_eq_None_iff)
    with False Some show ?thesis
      by (auto simp: addMarker_def Let_def PSVMarker_def update_fresh
          dest!: updatePositions_markers_eq split: prod.splits result.splits)
  qed
qed

lemma addMarker_returns:
  assumes "addMarker v p render s = (Return r, s1)"
  shows "\<exists>i. p_id p = Some i \<and> i \<noteq> [] \<and> map_of (markers s) i = None \<and> r = nextRef s
            \<and> markers s1 = markers s @ [(i, r)]"
proof -
  from assms obtain i where i: "p_id p = Some i" "i \<noteq> []" "map_of (markers s) i = None"
    by (auto simp: addMarker_def split: option.splits if_splits)
  with assms have "r = nextRef s"
    by (auto simp: addMarker_def Let_def split: if_splits prod.splits result.splits)
  moreover from addMarker_markers[of v p render s] assms i
  have "markers s1 = markers s @ [(i, nextRef s)]" by simp
  ultimately show ?thesis using i by simp
qed


section \<open>The inclusion test and the clipped list\<close>

lemma inFov_iff:
  "inFov fb (lat, lon) \<longleftrightarrow>
     latitude1 fb < lat \<and> lat < latitude2 fb \<and>
     (if longitude1 fb > longitude2 fb
      then lon > longitude1 fb \<or> lon < longitude2 fb
      else longitude1 fb < lon \<and> lon < longitude2 fb)"
  by (auto simp: inFov_def Let_def)

lemma initialPositions_length [simp]: "length (initialPositions fb p3 rad) = length rad"
  by (simp add: initialPositions_def)

lemma initialPositions_nth:
  "i < length rad \<Longrightarrow>
     initialPositions fb p3 rad ! i =
       \<lparr> pos_spherical = rad ! i, pos_vector = nth_opt p3 (int i), pos_visible = inFov fb (rad ! i) \<rparr>"
  by (simp add: initialPositions_def)

text \<open>
  C6. A vertex \<open>(lat, lon)\<close> of a polygon passes the inclusion test of
  \<open>_getPolygonPositions\<close> iff its latitude is strictly between \<open>latitude1\<close> and
  \<open>latitude2\<close> and its longitude is strictly between \<open>longitude1\<close> and \<open>longitude2\<close>;
  when \<open>longitude1 > longitude2\<close> (the window wraps past the seam) the longitude condition
  is instead \<open>lon > longitude1\<close> or \<open>lon < longitude2\<close>.
\<close>

theorem inclusion_test_characterised:
  "i < length polygon_rad \<Longrightarrow> polygon_rad ! i = (lat, lon) \<Longrightarrow>
   pos_visible (initialPositions fb positions3D polygon_rad ! i) \<longleftrightarrow>
     (latitude1 fb < lat \<and> lat < latitude2 fb \<and>
     (if longitude1 fb > longitude2 fb
      then lon > longitude1 fb \<or> lon < longitude2 fb
      else longitude1 fb < lon \<and> lon < longitude2 fb))"
  by (simp add: initialPositions_nth inFov_iff)

lemma toBeComputed_all_visible:
  "\<forall>i \<in> set is. pos_visible (positions ! i) \<Longrightarrow> toBeComputed positions nb is = Inr []"
  by (induction "is") simp_all

lemma projectVisible_all:
  "\<forall>p \<in> set ps. pos_visible p \<and> pos_vector p \<noteq> None \<Longrightarrow>
     projectVisible v ps = Inr (map (\<lambda>p. vector3ToViewerCoords v (the (pos_vector p))) ps)"
  by (induction ps) auto

lemma projectVisible_none:
  "\<forall>p \<in> set ps. \<not> pos_visible p \<Longrightarrow> projectVisible v ps = Inr []"
  by (induction ps) auto

text \<open>
  C7. When every vertex of a polygon passes the inclusion test, the clipped list is the
  list of the screen projections of the vertices: as many points as vertices, in the same
  order.
\<close>

theorem all_vertices_visible_projects_all:
  assumes len: "length positions3D = length polygon_rad"
    and vis: "\<forall>p \<in> set polygon_rad. inFov fb p"
  shows "getPolygonPositions v fb fp positions3D polygon_rad =
           Inr (map (vector3ToViewerCoords v) positions3D)"
proof -
  let ?ps = "initialPositions fb positions3D polygon_rad"
  have v: "\<forall>i < length polygon_rad. pos_visible (?ps ! i)"
    using vis by (simp add: initialPositions_nth)
  then have tbc: "toBeComputed ?ps (int (length positions3D)) [0 ..< length ?ps] = Inr []"
    by (intro toBeComputed_all_visible) simp
  have all: "\<forall>p \<in> set ?ps. pos_visible p \<and> pos_vector p \<noteq> None"
    using vis len by (auto simp: initialPositions_def nth_opt_def)
  have "map (\<lambda>p. vector3ToViewerCoords v (the (pos_vector p))) ?ps
          = map (\<lambda>i. vector3ToViewerCoords v (positions3D ! i)) [0 ..< length positions3D]"
    using len by (simp add: initialPositions_def nth_opt_def)
  also have "\<dots> = map (vector3ToViewerCoords v) (map (\<lambda>i. positions3D ! i) [0 ..< length positions3D])"
    by simp
  also have "\<dots> = map (vector3ToViewerCoords v) positions3D"
    by (simp only: map_nth)
  finally show ?thesis
    using tbc projectVisible_all[OF all, of v]
    by (simp add: getPolygonPositions_def Let_def)
qed

lemma visibleNeighbour_none:
  assumes "\<forall>p \<in> set positions. \<not> pos_visible p" "i < length positions"
  shows "visibleNeighbour positions (int (length positions)) (int i) = Inr None"
proof -
  define n1 where "n1 = (if int i = 0 then int (length positions) - 1 else int i - 1)"
  define n2 where "n2 = (if int i = int (length positions) - 1 then 0 else int i + 1)"
  have r1: "0 \<le> n1 \<and> n1 < int (length positions)"
    using assms(2) by (auto simp: n1_def)
  have r2: "0 \<le> n2 \<and> n2 < int (length positions)"
    using assms(2) by (auto simp: n2_def)
  from r1 have "nat n1 < length positions" by linarith
  with r1 have a: "nth_opt positions n1 = Some (positions ! nat n1)" "\<not> pos_visible (positions ! nat n1)"
    using assms(1) by (simp_all add: nth_opt_def)
  from r2 have "nat n2 < length positions" by linarith
  with r2 have b: "nth_opt positions n2 = Some (positions ! nat n2)" "\<not> pos_visible (positions ! nat n2)"
    using assms(1) by (simp_all add: nth_opt_def)
  show ?thesis
    unfolding visibleNeighbour_def Let_def n1_def[symmetric] n2_def[symmetric]
    by (simp add: a b)
qed

lemma toBeComputed_none_visible:
  assumes "\<forall>p \<in> set positions. \<not> pos_visible p" "\<forall>i \<in> set is. i < length positions"
  shows "toBeComputed positions (int (length positions)) is = Inr []"
  using assms(2)
proof (induction "is")
  case Nil
  then show ?case by simp
next
  case (Cons i "is")
  then have "i < length positions" by simp
  with assms(1) have "\<not> pos_visible (positions ! i)" by simp
  with Cons visibleNeighbour_none[OF assms(1) \<open>i < length positions\<close>] show ?case by simp
qed

lemma getPolygonPositions_none_visible:
  assumes len: "length positions3D = length polygon_rad"
    and vis: "\<forall>p \<in> set polygon_rad. \<not> inFov fb p"
  shows "getPolygonPositions v fb fp positions3D polygon_rad = Inr []"
proof -
  let ?ps = "initialPositions fb positions3D polygon_rad"
  have none: "\<forall>p \<in> set ?ps. \<not> pos_visible p"
    using vis by (auto simp: initialPositions_def)
  have "toBeComputed ?ps (int (length ?ps)) [0 ..< length ?ps] = Inr []"
    by (rule toBeComputed_none_visible[OF none]) simp
  then show ?thesis
    using len projectVisible_none[OF none, of v]
    by (simp add: getPolygonPositions_def Let_def)
qed

lemma updateOne_polygon_none_visible:
  assumes "geometry m = Polygon positions3D polygon_rad"
    "length positions3D = length polygon_rad" "\<forall>p \<in> set polygon_rad. \<not> inFov fb p"
  shows "\<exists>m'. updateOne v fb fp rot r m = Inr m' \<and>
           position2D m' = Some \<lparr> c_top = Infinity, c_left = Infinity \<rparr> \<and> el_visible m'"
  using assms getPolygonPositions_none_visible[OF assms(2,3), of v fp]
  by (simp add: updateOne_def isPolygonVisible_def getPolygonDimensions_def Let_def)

lemma isMarkerVisible_behind:
  "dot p (direction v) < 0 \<Longrightarrow> \<not> isMarkerVisible v m p pos"
  by (simp add: isMarkerVisible_def)

lemma updateOne_point_behind:
  assumes "geometry m = Point p" "dot p (direction v) < 0"
  shows "\<exists>m'. updateOne v fb fp rot r m = Inr m' \<and> position2D m' = None \<and> \<not> el_visible m'
            \<and> geometry m' = Point p"
  using assms
  by (simp add: updateOne_def isMarkerVisible_def getMarkerPosition_def Let_def split: prod.splits)

lemma updateOne_geometry: "updateOne v fb fp rot r m = Inr m' \<Longrightarrow> geometry m' = geometry m"
  by (auto simp: updateOne_def getPolygonDimensions_def getMarkerPosition_def Let_def
      split: geometry.splits sum.splits if_splits prod.splits)

lemma updateEach_point_behind:
  assumes "dot p (direction v) < 0"
  shows "updateEach v fb fp rot ms s = (Return (), s') \<Longrightarrow> geometry (heap s r) = Point p \<Longrightarrow>
         r \<in> snd ` set ms \<or> position2D (heap s r) = None \<Longrightarrow>
         position2D (heap s' r) = None \<and> geometry (heap s' r) = Point p"
proof (induction ms arbitrary: s)
  case Nil
  then show ?case by simp
next
  case (Cons a ms)
  obtain i r' where a: "a = (i, r')" by (cases a)
  show ?case
  proof (cases "updateOne v fb fp rot r' (heap s r')")
    case (Inl e)
    with Cons.prems a show ?thesis by simp
  next
    case (Inr m)
    let ?s1 = "s \<lparr> heap := (heap s) (r' := m) \<rparr>"
    from Cons.prems a Inr have run: "updateEach v fb fp rot ms ?s1 = (Return (), s')" by simp
    have g: "geometry (heap ?s1 r) = Point p"
      using Cons.prems(2) updateOne_geometry[OF Inr] by auto
    have "r \<in> snd ` set ms \<or> position2D (heap ?s1 r) = None"
    proof (cases "r = r'")
      case True
      with updateOne_point_behind[OF _ assms, of "heap s r" fb fp rot r] Cons.prems(2) Inr
      show ?thesis by simp
    next
      case False
      with Cons.prems(3) a show ?thesis by auto
    qed
    from Cons.IH[OF run g this] show ?thesis .
  qed
qed

text \<open>
  Witness for C6 with a window that wraps past the seam (\<open>longitude1 = 5\<close>,
  \<open>longitude2 = 1\<close>): longitude 5.5 is inside, longitude 3 is outside.
\<close>

theorem inclusion_test_witness:
  "pos_visible (initialPositions \<lparr> longitude1 = 5, longitude2 = 1, latitude1 = - 1 / 2, latitude2 = 1 / 2,
        latitudeCrossOrigin = False \<rparr> [] [(0, 11 / 2), (0, 3)] ! 0)
   \<and> \<not> pos_visible (initialPositions \<lparr> longitude1 = 5, longitude2 = 1, latitude1 = - 1 / 2, latitude2 = 1 / 2,
        latitudeCrossOrigin = False \<rparr> [] [(0, 11 / 2), (0, 3)] ! 1)"
  using inclusion_test_characterised[of 0 "[(0, 11 / 2), (0, 3)]" 0 "11 / 2"
      "\<lparr> longitude1 = 5, longitude2 = 1, latitude1 = - 1 / 2, latitude2 = 1 / 2,
         latitudeCrossOrigin = False \<rparr>" "[]"]
    inclusion_test_characterised[of 1 "[(0, 11 / 2), (0, 3)]" 0 "3"
      "\<lparr> longitude1 = 5, longitude2 = 1, latitude1 = - 1 / 2, latitude2 = 1 / 2,
         latitudeCrossOrigin = False \<rparr>" "[]"]
  by simp

text \<open>Witness for C7: a triangle inside the window gives its three projections, in order.\<close>

theorem all_vertices_visible_witness:
  "getPolygonPositions exampleViewer
     \<lparr> longitude1 = 1, longitude2 = 2, latitude1 = - 1 / 2, latitude2 = 1 / 2, latitudeCrossOrigin = False \<rparr>
     [] [Vector3 1 0 0, Vector3 0 1 0, Vector3 0 0 1] [(0, 3 / 2), (1 / 4, 5 / 4), (- 1 / 4, 7 / 4)]
   = Inr [\<lparr> c_top = Finite 300, c_left = Finite 0 \<rparr>,
          \<lparr> c_top = Finite 0, c_left = Finite 400 \<rparr>,
          \<lparr> c_top = Finite 300, c_left = Finite 400 \<rparr>]"
  using all_vertices_visible_projects_all[of "[Vector3 1 0 0, Vector3 0 1 0, Vector3 0 0 1]"
     "[(0, 3 / 2), (1 / 4, 5 / 4), (- 1 / 4, 7 / 4)]"
     "\<lparr> longitude1 = 1, longitude2 = 2, latitude1 = - 1 / 2, latitude2 = 1 / 2, latitudeCrossOrigin = False \<rparr>"
     exampleViewer "[]"]
  by (simp add: inFov_def exampleViewer_def projectToScreen_def)

section \<open>Point markers behind the camera\<close>

lemmas run_defs =
  addMarker_def updatePositions_def updateOne_def getMarkerPosition_def isMarkerVisible_def
  exampleViewer_def exampleProperties_def exampleHud_def newHud_def PSVMarker_def isNormal_def
  projectToScreen_def num_sub_def num_ge_def dot_def rotationOf_def Let_def

lemma front_added:
  "addMarker exampleViewer frontPoint None exampleHud =
     (Return 0,
      exampleHud \<lparr> markers := [(''front'', 0)],
         heap := (heap exampleHud) (0 := (PSVMarker frontPoint)
                   \<lparr> position2D := Some \<lparr> c_top = Finite 284, c_left = Finite 384 \<rparr>,
                     el_transform := Some (\<lparr> c_top = Finite 284, c_left = Finite 384 \<rparr>, 0),
                     el_visible := True \<rparr>),
         nextRef := 1,
         container_children := [0],
         fovBounds := Some (computeFovBounds exampleViewer),
         frustrumPoints := computeFrustrumPoints exampleViewer (computeFovBounds exampleViewer) \<rparr>)"
  by (simp add: run_defs frontPoint_def)

text \<open>
  C8. A point marker whose direction has a negative dot product with the view direction
  fails the visibility test whatever its size and projected position are, and a pass of
  \<open>updatePositions\<close> that returns leaves its \<open>position2D\<close> at \<open>null\<close>.
\<close>

theorem point_behind_camera_not_visible:
  assumes "geometry (heap s r) = Point p" and "dot p (direction v) < 0"
    and "r \<in> snd ` set (markers s)" and "updatePositions v s = (Return (), s')"
  shows "\<not> isMarkerVisible v m p pos \<and> position2D (heap s' r) = None"
  using assms updateEach_point_behind[OF assms(2), of _ _ _ "markers s" _ s' r]
  by (simp add: isMarkerVisible_behind updatePositions_def Let_def)

text \<open>
  Witness for C8: a marker straight ahead is projected to (284, 384); after the camera has
  turned to face the other way, the next pass clears its \<open>position2D\<close>.
\<close>

theorem point_behind_camera_witness:
  "position2D (heap (snd (addMarker exampleViewer frontPoint None exampleHud)) 0)
     = Some \<lparr> c_top = Finite 284, c_left = Finite 384 \<rparr>
   \<and> \<not> isMarkerVisible (exampleViewer \<lparr> direction := Vector3 0 0 (- 1) \<rparr>) (PSVMarker frontPoint)
         (Vector3 0 0 1) \<lparr> c_top = Finite 284, c_left = Finite 384 \<rparr>
   \<and> position2D (heap (snd (updatePositions (exampleViewer \<lparr> direction := Vector3 0 0 (- 1) \<rparr>)
         (snd (addMarker exampleViewer frontPoint None exampleHud)))) 0) = None"
proof -
  let ?v = "exampleViewer \<lparr> direction := Vector3 0 0 (- 1) \<rparr>"
  let ?s = "snd (addMarker exampleViewer frontPoint None exampleHud)"
  have g: "geometry (heap ?s 0) = Point (Vector3 0 0 1)"
    by (simp add: front_added) (simp add: PSVMarker_def frontPoint_def exampleProperties_def)
  have d: "dot (Vector3 0 0 1) (direction ?v) < 0"
    by (simp add: dot_def)
  have m: "0 \<in> snd ` set (markers ?s)"
    by (simp add: front_added)
  have "fst (updatePositions ?v ?s) = Return ()"
    by (simp add: front_added) (simp add: run_defs frontPoint_def)
  then have u: "updatePositions ?v ?s = (Return (), snd (updatePositions ?v ?s))"
    by (metis prod.collapse)
  from point_behind_camera_not_visible[OF g d m u, of "PSVMarker frontPoint"
      "\<lparr> c_top = Finite 284, c_left = Finite 384 \<rparr>"]
  show ?thesis by (simp add: front_added)
qed

section \<open>The registry: duplicates, identity and removal\<close>

lemma performAll_ok: "registry_ok s \<Longrightarrow> registry_ok (performAll v ops s)"
  by (induction ops arbitrary: s) (simp_all add: perform_ok)


text \<open>
  C3. In a state that satisfies the registry invariant, \<open>addMarker\<close> with an id that is
  already registered throws the error "marker ... already exists" and leaves the whole
  state, the registry included, as it was.
\<close>

theorem addMarker_duplicate_id_unchanged:
  assumes "registry_ok s" and "p_id properties = Some i" and "map_of (markers s) i = Some r"
  shows "addMarker v properties render s = (Throw (AlreadyExists i), s)"
  using assms registry_lookup[OF assms(1,3)] by (simp add: addMarker_def)

lemma exampleHud_ok: "registry_ok exampleHud"
  by (simp add: registry_ok_def exampleHud_def newHud_def)

text \<open>Witness for C3: adding \<open>front\<close> a second time.\<close>

theorem addMarker_duplicate_id_witness:
  "addMarker exampleViewer frontPoint (Some True)
     (snd (addMarker exampleViewer frontPoint None exampleHud))
   = (Throw (AlreadyExists ''front''), snd (addMarker exampleViewer frontPoint None exampleHud))"
proof -
  let ?s = "snd (addMarker exampleViewer frontPoint None exampleHud)"
  have ok: "registry_ok ?s" by (rule addMarker_ok[OF exampleHud_ok])
  have i: "p_id frontPoint = Some ''front''" by (simp add: frontPoint_def exampleProperties_def)
  have m: "map_of (markers ?s) ''front'' = Some 0" by (simp add: front_added)
  from addMarker_duplicate_id_unchanged[OF ok i m] show ?thesis .
qed



lemma front_state:
  "snd (addMarker exampleViewer frontPoint None exampleHud) =
      exampleHud \<lparr> markers := [(''front'', 0)],
         heap := (heap exampleHud) (0 := (PSVMarker frontPoint)
                   \<lparr> position2D := Some \<lparr> c_top = Finite 284, c_left = Finite 384 \<rparr>,
                     el_transform := Some (\<lparr> c_top = Finite 284, c_left = Finite 384 \<rparr>, 0),
                     el_visible := True \<rparr>),
         nextRef := 1,
         container_children := [0],
         fovBounds := Some (computeFovBounds exampleViewer),
         frustrumPoints := computeFrustrumPoints exampleViewer (computeFovBounds exampleViewer) \<rparr>"
  by (simp add: front_added)



section \<open>Return value, hover slot and toggling\<close>

lemma addMarker_returns_registered:
  assumes "addMarker v p render s = (Return r, s1)" and "p_id p = Some i"
  shows "r = nextRef s \<and> getMarker (RawId i) s1 = Return r"
proof -
  from addMarker_returns[OF assms(1)] assms(2)
  have "r = nextRef s" "markers s1 = markers s @ [(i, r)]" "map_of (markers s) i = None" by auto
  then show ?thesis by (simp add: getMarker_def map_add_def)
qed

lemma addMarker_r1_never_marker: "fst (addMarker_r1 v p render s) \<noteq> Return (Some r)"
  by (simp add: addMarker_r1_def Let_def split: option.splits)

text \<open>
  C5. In the earlier revision \<open>addMarker\<close> registers the marker (\<open>getMarker\<close> finds it
  afterwards) but returns \<open>undefined\<close>, not the marker; the later revision returns it.
  Here on a new HUD with the properties \<open>frontPoint\<close>.
\<close>

theorem addMarker_earlier_revision_returns_undefined:
  "fst (addMarker_r1 exampleViewer frontPoint None exampleHud) = Return None
   \<and> getMarker (RawId ''front'') (snd (addMarker_r1 exampleViewer frontPoint None exampleHud)) = Return 0
   \<and> fst (addMarker exampleViewer frontPoint None exampleHud) = Return 0"
  by (simp add: front_added)
     (simp add: addMarker_r1_def updatePositions_r1_def updateOne_r1_def getMarker_def
        getMarkerPosition_def isMarkerVisible_def exampleViewer_def exampleProperties_def
        exampleHud_def newHud_def PSVMarker_def isNormal_def frontPoint_def Let_def)

lemma removeMarker_keeps_hover:
  "hoveringMarker (snd (removeMarker v a render s)) = hoveringMarker s"
proof -
  obtain res s' where eq: "removeMarker v a render s = (res, s')" by force
  from removeMarker_cases[OF eq] have "hoveringMarker s' = hoveringMarker s" by auto
  with eq show ?thesis by simp
qed

lemma frontHud_eq:
  "frontHud =
      exampleHud \<lparr> markers := [(''front'', 0)],
         heap := (heap exampleHud) (0 := (PSVMarker frontPoint)
                   \<lparr> position2D := Some \<lparr> c_top = Finite 284, c_left = Finite 384 \<rparr>,
                     el_transform := Some (\<lparr> c_top = Finite 284, c_left = Finite 384 \<rparr>, 0),
                     el_visible := True \<rparr>),
         nextRef := 1,
         container_children := [0],
         fovBounds := Some (computeFovBounds exampleViewer),
         frustrumPoints := computeFrustrumPoints exampleViewer (computeFovBounds exampleViewer) \<rparr>"
  by (simp add: frontHud_def front_added)

lemma hoveringHud_eq:
  "hoveringHud =
     frontHud \<lparr> hoveringMarker := Some 0,
         tooltip_shown := Some \<lparr> tc_content = ''Lorem ipsum'', tc_position = ''top'',
            tc_top = Finite 284, tc_left = Finite 384, tc_marker = MarkerObject 0 \<rparr> \<rparr>"
  by (simp add: hoveringHud_def frontHud_eq onMouseEnter_def enterFront_def exampleHud_def
        newHud_def PSVMarker_def frontPoint_def exampleProperties_def isPolygon_def)

text \<open>
  C9. \<open>removeMarker\<close> on the marker that is being hovered detaches its element, deletes
  it from the registry and hides the tooltip, but the hovering-marker slot still refers to
  the removed marker afterwards.
\<close>

theorem removeMarker_leaves_hover_slot:
  "hoveringMarker hoveringHud = Some 0
   \<and> tooltip_shown hoveringHud \<noteq> None
   \<and> removeMarker exampleViewer (RawId ''front'') (Some False) hoveringHud
     = (Return (),
        frontHud \<lparr> markers := [], container_children := [],
                   hoveringMarker := Some 0, tooltip_shown := None \<rparr>)"
  by (simp add: hoveringHud_eq)
     (simp add: frontHud_eq removeMarker_def removeChild_def getMarker_def exampleHud_def newHud_def
        PSVMarker_def frontPoint_def exampleProperties_def isNormal_def Let_def)

lemma xorTrue_flag:
  "booleanOrBit f \<Longrightarrow> (xorTrue f = JNum 0 \<or> xorTrue f = JNum 1) \<and> truthy (xorTrue f) = (\<not> truthy f)"
  by (cases f) (auto simp: xorTrue_def toInt32_def)

lemma toggleMarker_flag:
  assumes "getMarker a s = Return r"
  shows "visible (heap (snd (toggleMarker v a s)) r) = xorTrue (visible (heap s r))
       \<and> getMarker a (snd (toggleMarker v a s)) = Return r"
proof -
  let ?s1 = "s \<lparr> heap := (heap s) (r := (heap s r) \<lparr> visible := xorTrue (visible (heap s r)) \<rparr>) \<rparr>"
  obtain res s' where eq: "updatePositions v ?s1 = (res, s')" by force
  from updatePositions_frame[OF eq] have "markers s' = markers s" "visible (heap s' r) = xorTrue (visible (heap s r))"
    by simp_all
  with assms eq show ?thesis by (simp add: toggleMarker_def getMarker_def)
qed

text \<open>
  C10. For a registered marker whose \<open>visible\<close> flag is a boolean or one of the numbers 0
  and 1, one \<open>toggleMarker\<close> leaves the number 0 or 1 in the flag and inverts its truth
  value, and a second \<open>toggleMarker\<close> restores the truth value the flag had at first.
\<close>

theorem toggleMarker_twice:
  assumes "getMarker a s = Return r" and "booleanOrBit (visible (heap s r))"
  shows "(visible (heap (snd (toggleMarker v a s)) r) = JNum 0
            \<or> visible (heap (snd (toggleMarker v a s)) r) = JNum 1)
       \<and> truthy (visible (heap (snd (toggleMarker v a s)) r)) = (\<not> truthy (visible (heap s r)))
       \<and> truthy (visible (heap (snd (toggleMarker v a (snd (toggleMarker v a s)))) r))
           = truthy (visible (heap s r))"
proof -
  let ?s1 = "snd (toggleMarker v a s)"
  from toggleMarker_flag[OF assms(1), of v]
  have 1: "visible (heap ?s1 r) = xorTrue (visible (heap s r))" and g: "getMarker a ?s1 = Return r"
    by simp_all
  from toggleMarker_flag[OF g, of v]
  have 2: "visible (heap (snd (toggleMarker v a ?s1)) r) = xorTrue (visible (heap ?s1 r))" by simp
  from xorTrue_flag[OF assms(2)] have b: "booleanOrBit (xorTrue (visible (heap s r)))" by auto
  from xorTrue_flag[OF assms(2)] xorTrue_flag[OF b] 1 2 show ?thesis by auto
qed

text \<open>Witness for C10: the flag of a new marker goes from \<open>true\<close> to 0 and then to 1.\<close>

theorem toggleMarker_twice_witness:
  "visible (heap (snd (addMarker exampleViewer frontPoint None exampleHud)) 0) = JBool True
   \<and> visible (heap (snd (toggleMarker exampleViewer (RawId ''front'')
        (snd (addMarker exampleViewer frontPoint None exampleHud)))) 0) = JNum 0
   \<and> truthy (visible (heap (snd (toggleMarker exampleViewer (RawId ''front'')
        (snd (toggleMarker exampleViewer (RawId ''front'')
        (snd (addMarker exampleViewer frontPoint None exampleHud)))))) 0))"
proof -
  let ?s = "snd (addMarker exampleViewer frontPoint None exampleHud)"
  have g: "getMarker (RawId ''front'') ?s = Return 0"
    by (simp add: front_state getMarker_def)
  have f: "visible (heap ?s 0) = JBool True"
    by (simp add: front_state PSVMarker_def)
  then have b: "booleanOrBit (visible (heap ?s 0))" by simp
  from toggleMarker_twice[OF g b, of exampleViewer] f show ?thesis by auto
qed

section \<open>The visible flag over all operations\<close>

lemma updatePositions_flags:
  "\<forall>r. booleanOrBit (visible (heap s r)) \<Longrightarrow> \<forall>r. booleanOrBit (visible (heap (snd (updatePositions v s)) r))"
  using updatePositions_frame[of v s "fst (updatePositions v s)" "snd (updatePositions v s)"]
  by simp

lemma updatePositions_flags_eq:
  "updatePositions v s = (res, s') \<Longrightarrow> \<forall>r. booleanOrBit (visible (heap s r)) \<Longrightarrow>
     booleanOrBit (visible (heap s' r))"
  using updatePositions_flags[of s v] by simp

lemma removeMarker_flags:
  "\<forall>r. booleanOrBit (visible (heap s r)) \<Longrightarrow>
     \<forall>r. booleanOrBit (visible (heap (snd (removeMarker v a render s)) r))"
proof -
  assume f: "\<forall>r. booleanOrBit (visible (heap s r))"
  obtain res s' where eq: "removeMarker v a render s = (res, s')" by force
  from removeMarker_cases[OF eq] f have "\<forall>r. booleanOrBit (visible (heap s' r))" by auto
  with eq show ?thesis by simp
qed

lemma removeKeys_flags:
  "\<forall>r. booleanOrBit (visible (heap s r)) \<Longrightarrow>
     \<forall>r. booleanOrBit (visible (heap (snd (removeKeys v ks s)) r))"
proof (induction ks arbitrary: s)
  case Nil
  then show ?case by simp
next
  case (Cons k ks)
  obtain res s1 where eq: "removeMarker v (RawId k) (Some False) s = (res, s1)" by force
  from removeMarker_flags[OF Cons.prems, of v "RawId k" "Some False"] eq
  have "\<forall>r. booleanOrBit (visible (heap s1 r))" by simp
  with Cons.IH eq show ?case by (cases res) simp_all
qed

lemma xorTrue_booleanOrBit: "booleanOrBit f \<Longrightarrow> booleanOrBit (xorTrue f)"
  using xorTrue_flag[of f] by auto

lemma snd_after_pass:
  "snd (case updatePositions v s of (Throw e, s4) \<Rightarrow> (Throw e, s4) | (Return u, s4) \<Rightarrow> (Return r, s4))
     = snd (updatePositions v s)"
  by (auto split: prod.splits result.splits)

lemma addMarker_flags:
  assumes f: "\<forall>r. booleanOrBit (visible (heap s r))"
  shows "\<forall>r. booleanOrBit (visible (heap (snd (addMarker v p render s)) r))"
proof (cases "\<exists>i. p_id p = Some i \<and> i \<noteq> [] \<and> map_of (markers s) i = None")
  case False
  with f show ?thesis by (auto simp: addMarker_def split: option.splits)
next
  case True
  then obtain i where i: "p_id p = Some i" "i \<noteq> []" "map_of (markers s) i = None" by blast
  define s3 where "s3 = (let r = nextRef s; m = PSVMarker p;
                 s1 = s \<lparr> heap := (heap s) (r := m), nextRef := Suc r \<rparr>;
                 s2 = (if isNormal m
                       then s1 \<lparr> container_children := container_children s1 @ [r] \<rparr>
                       else s1 \<lparr> svg_children := svg_children s1 @ [r] \<rparr>)
              in s2 \<lparr> markers := AList.update (marker_id m) r (markers s2) \<rparr>)"
  have "heap s3 = (heap s) (nextRef s := PSVMarker p)" by (simp add: s3_def Let_def)
  with f have f3: "\<forall>r. booleanOrBit (visible (heap s3 r))" by (simp add: PSVMarker_def)
  have "snd (addMarker v p render s) = (if render \<noteq> Some False then snd (updatePositions v s3) else s3)"
    using i by (simp add: addMarker_def s3_def Let_def snd_after_pass)
  with f3 show ?thesis by (simp add: updatePositions_flags)
qed

lemma updateMarker_flags:
  assumes f: "\<forall>r. booleanOrBit (visible (heap s r))"
  shows "\<forall>r. booleanOrBit (visible (heap (snd (updateMarker v p render s)) r))"
proof (cases "getMarker (WithId (p_id p)) s")
  case (Throw e)
  with f show ?thesis by (simp add: updateMarker_def)
next
  case (Return r)
  let ?s1 = "s \<lparr> heap := (heap s) (r := marker_update p (heap s r)) \<rparr>"
  from f have f1: "\<forall>x. booleanOrBit (visible (heap ?s1 x))"
    by (simp add: marker_update_def split: option.splits)
  have "snd (updateMarker v p render s) = (if render \<noteq> Some False then snd (updatePositions v ?s1) else ?s1)"
    using Return by (simp add: updateMarker_def Let_def snd_after_pass)
  with f1 show ?thesis by (simp add: updatePositions_flags)
qed

lemma perform_flags:
  assumes f: "\<forall>r. booleanOrBit (visible (heap s r))"
  shows "\<forall>r. booleanOrBit (visible (heap (perform v op s) r))"
proof (cases op)
  case (AddMarker p render)
  with f show ?thesis by (simp add: addMarker_flags)
next
  case (UpdateMarker p render)
  with f show ?thesis by (simp add: updateMarker_flags)
next
  case (RemoveMarker a render)
  with f show ?thesis by (simp add: removeMarker_flags)
next
  case (ClearMarkers render)
  obtain res s1 where eq: "removeKeys v (map fst (markers s)) s = (res, s1)" by force
  from removeKeys_flags[OF f, of v "map fst (markers s)"] eq
  have "\<forall>r. booleanOrBit (visible (heap s1 r))" by simp
  with eq ClearMarkers show ?thesis
    by (cases res) (auto simp: clearMarkers_def dest: updatePositions_flags)
next
  case (GotoMarker a)
  with f show ?thesis by (simp add: gotoMarker_def split: result.splits)
next
  case (HideMarker a)
  with f show ?thesis
    by (auto simp: hideMarker_def intro!: updatePositions_flags[rule_format] split: result.splits)
next
  case (ShowMarker a)
  with f show ?thesis
    by (auto simp: showMarker_def intro!: updatePositions_flags[rule_format] split: result.splits)
next
  case (ToggleMarker a)
  with f show ?thesis
    by (auto simp: toggleMarker_def xorTrue_booleanOrBit
        intro!: updatePositions_flags[rule_format] split: result.splits)
next
  case UpdatePositions
  with f show ?thesis by (simp add: updatePositions_flags)
next
  case (MouseEnter e)
  with f show ?thesis by (auto simp: onMouseEnter_def Let_def split: option.splits)
next
  case (MouseLeave e)
  with f show ?thesis by (auto simp: onMouseLeave_def split: option.splits)
next
  case (MouseMove e)
  with f show ?thesis by (auto simp: onMouseMove_def Let_def split: option.splits)
next
  case (Click c)
  with f show ?thesis
    by (auto simp: onClick_def Let_def split: option.splits prod.splits if_splits)
qed

lemma reachable_flags:
  "booleanOrBit (visible filler) \<Longrightarrow>
     booleanOrBit (visible (heap (performAll v ops (newHud filler)) r))"
proof -
  have "\<forall>r. booleanOrBit (visible (heap s r)) \<Longrightarrow> \<forall>r. booleanOrBit (visible (heap (performAll v ops s) r))" for s
    by (induction ops arbitrary: s) (simp_all add: perform_flags)
  from this[of "newHud filler"] show "booleanOrBit (visible filler) \<Longrightarrow> ?thesis"
    by (simp add: newHud_def)
qed

lemma reachable_ok: "registry_ok (performAll v ops (newHud filler))"
  by (rule performAll_ok) (simp add: registry_ok_def newHud_def)

lemma onMouseLeave_clears_hover:
  "target_marker e = Some r \<Longrightarrow> \<not> (isPolygon (heap s r) \<and> related_in_tooltip e) \<Longrightarrow>
     hoveringMarker (snd (onMouseLeave v e s)) = None \<and> tooltip_shown (snd (onMouseLeave v e s)) = None"
  by (auto simp: onMouseLeave_def)

section \<open>A polygon outside the field of view\<close>

lemma example_latitudes:
  "latitude1 (computeFovBounds exampleViewer) = - pi / 6"
  "latitude2 (computeFovBounds exampleViewer) = pi / 6"
  by (simp_all add: computeFovBounds_def exampleViewer_def Let_def)

lemma high_not_inFov: "1 \<le> lat \<Longrightarrow> \<not> inFov (computeFovBounds exampleViewer) (lat, lon)"
  using pi_less_4 by (simp add: inFov_def example_latitudes Let_def)

lemma highTriangle_marker:
  "geometry (PSVMarker highTriangle) =
     Polygon [sphericalToVector 0 1, sphericalToVector (1 / 10) 1, sphericalToVector 0 (11 / 10)]
             [(1, 0), (1, 1 / 10), (11 / 10, 0)]"
  "marker_id (PSVMarker highTriangle) = ''high''"
  "\<not> isNormal (PSVMarker highTriangle)"
  "p_id highTriangle = Some ''high''"
  by (simp_all add: PSVMarker_def highTriangle_def exampleProperties_def isNormal_def)

lemma isPolygonVisible_r1_empty: "\<not> isPolygonVisible_r1 v m positions3D []"
  by (simp add: isPolygonVisible_r1_def)

text \<open>
  C1. A triangle whose three vertices lie above the field of view: the clipped list is
  empty, yet the pass of \<open>addMarker\<close> leaves the marker with the \<open>visible\<close> class and with
  \<open>position2D = {top: Infinity, left: Infinity}\<close> instead of \<open>null\<close>, because
  \<open>_isPolygonVisible\<close> returns \<open>true\<close> before its test.
\<close>

theorem invisible_polygon_marked_visible:
  "getPolygonPositions exampleViewer (computeFovBounds exampleViewer)
      (computeFrustrumPoints exampleViewer (computeFovBounds exampleViewer))
      [sphericalToVector 0 1, sphericalToVector (1 / 10) 1, sphericalToVector 0 (11 / 10)]
      [(1, 0), (1, 1 / 10), (11 / 10, 0)] = Inr []
   \<and> fst (addMarker exampleViewer highTriangle None exampleHud) = Return 0
   \<and> position2D (heap (snd (addMarker exampleViewer highTriangle None exampleHud)) 0)
       = Some \<lparr> c_top = Infinity, c_left = Infinity \<rparr>
   \<and> el_visible (heap (snd (addMarker exampleViewer highTriangle None exampleHud)) 0)"
proof -
  let ?fb = "computeFovBounds exampleViewer"
  let ?fp = "computeFrustrumPoints exampleViewer ?fb"
  let ?p3 = "[sphericalToVector 0 1, sphericalToVector (1 / 10) 1, sphericalToVector 0 (11 / 10)]"
  let ?rad = "[(1, 0), (1, 1 / 10), (11 / 10, 0)] :: (real \<times> real) list"
  have out: "\<forall>p \<in> set ?rad. \<not> inFov ?fb p"
    by (simp add: high_not_inFov)
  have len: "length ?p3 = length ?rad" by simp
  have empty: "getPolygonPositions exampleViewer ?fb ?fp ?p3 ?rad = Inr []"
    by (rule getPolygonPositions_none_visible[OF len out])
  from updateOne_polygon_none_visible[OF highTriangle_marker(1) len out,
      of exampleViewer ?fp "rotationOf exampleViewer" 0]
  obtain m' where m': "updateOne exampleViewer ?fb ?fp (rotationOf exampleViewer) 0 (PSVMarker highTriangle) = Inr m'"
    "position2D m' = Some \<lparr> c_top = Infinity, c_left = Infinity \<rparr>" "el_visible m'"
    by blast
  have run: "addMarker exampleViewer highTriangle None exampleHud =
        (Return 0,
         exampleHud \<lparr> markers := [(''high'', 0)], heap := (heap exampleHud) (0 := m'), nextRef := 1,
            svg_children := [0], fovBounds := Some ?fb, frustrumPoints := ?fp \<rparr>)"
    by (simp add: addMarker_def updatePositions_def highTriangle_marker m' exampleHud_def newHud_def Let_def)
  show ?thesis
    using empty m'(2,3) by (simp add: run)
qed

section \<open>A polygon that straddles the right edge of the view\<close>

lemma example_bounds:
  "computeFovBounds exampleViewer =
     \<lparr> longitude1 = 7 * pi / 4, longitude2 = pi / 4, latitude1 = - pi / 6, latitude2 = pi / 6,
       latitudeCrossOrigin = False \<rparr>"
proof -
  have a: "normaliseAngle (- pi / 4) = 7 * pi / 4"
  proof -
    have "(- pi / 4) / (2 * pi) = - 1 / 8" by simp
    then have "\<lfloor>(- pi / 4) / (2 * pi)\<rfloor> = - 1" by simp
    then show ?thesis unfolding normaliseAngle_def by simp
  qed
  have b: "normaliseAngle (pi / 4) = pi / 4"
  proof -
    have "(pi / 4) / (2 * pi) = 1 / 8" by simp
    then have "\<lfloor>(pi / 4) / (2 * pi)\<rfloor> = 0" by simp
    then show ?thesis unfolding normaliseAngle_def by simp
  qed
  show ?thesis
    using a b pi_gt_zero by (simp add: computeFovBounds_def exampleViewer_def Let_def)
qed

lemma sin_cos_7pi4: "sin (7 * pi / 4) = - (sqrt 2 / 2)" "cos (7 * pi / 4) = sqrt 2 / 2"
proof -
  have e: "2 * pi - pi / 4 = 7 * pi / 4" by simp
  have "sin (2 * pi - pi / 4) = - (sqrt 2 / 2)" by (simp only: sin_2pi_minus sin_45)
  then show "sin (7 * pi / 4) = - (sqrt 2 / 2)" by (simp only: e)
  have "cos (2 * pi - pi / 4) = sqrt 2 / 2" by (simp only: cos_2pi_minus cos_45)
  then show "cos (7 * pi / 4) = sqrt 2 / 2" by (simp only: e)
qed

lemma sqrt6: "sqrt 3 * sqrt 2 = sqrt 6"
  by (simp add: real_sqrt_mult[symmetric])

lemma corner0: "sphericalToVector (7 * pi / 4) (pi / 6) = Vector3 (sqrt 6 / 4) (1 / 2) (sqrt 6 / 4)"
  by (simp add: sphericalToVector_def sin_cos_7pi4 sin_30 cos_30 sqrt6)

lemma corner1: "sphericalToVector (pi / 4) (pi / 6) = Vector3 (- (sqrt 6 / 4)) (1 / 2) (sqrt 6 / 4)"
  by (simp add: sphericalToVector_def sin_45 cos_45 sin_30 cos_30 sqrt6)

lemma vertex0: "sphericalToVector 0 0 = Vector3 0 0 1"
  by (simp add: sphericalToVector_def)

lemma vertex1: "sphericalToVector (pi / 3) 0 = Vector3 (- (sqrt 3 / 2)) 0 (1 / 2)"
  by (simp add: sphericalToVector_def sin_60 cos_60)


lemma normalize_neg_y: "0 < a \<Longrightarrow> normalize (Vector3 0 (- a) 0) = Vector3 0 (- 1) 0"
  by (simp add: normalize_def vlength_def multiplyScalar_def)

lemma normalize_cross_down:
  assumes "vx w = 0" and "0 < vz w"
  shows "normalize (crossVectors (Vector3 0 (- 1) 0) (normalize w)) = Vector3 (- 1) 0 0"
proof -
  define l where "l = vlength w"
  have "0 < vy w * vy w + vz w * vz w"
    using assms(2) by (intro add_nonneg_pos) simp_all
  then have l: "0 < l" unfolding l_def vlength_def using assms(1) by simp
  define t where "t = vz w / l"
  have t: "0 < t" unfolding t_def using assms(2) l by simp
  have "crossVectors (Vector3 0 (- 1) 0) (normalize w) = Vector3 (- t) 0 0"
    using l assms(1) by (simp add: normalize_def l_def[symmetric] multiplyScalar_def crossVectors_def t_def)
  moreover have "normalize (Vector3 (- t) 0 0) = Vector3 (- 1) 0 0"
    using t by (simp add: normalize_def vlength_def multiplyScalar_def)
  ultimately show ?thesis by simp
qed

lemma candidate:
  "normalize (crossVectors (normalize (crossVectors (Vector3 0 0 1) (Vector3 (- (sqrt 3 / 2)) 0 (1 / 2))))
                           (normalize (crossVectors (Vector3 (sqrt 6 / 4) (1 / 2) (sqrt 6 / 4))
                                                    (Vector3 (- (sqrt 6 / 4)) (1 / 2) (sqrt 6 / 4)))))
     = Vector3 (- 1) 0 0"
proof -
  have "crossVectors (Vector3 0 0 1) (Vector3 (- (sqrt 3 / 2)) 0 (1 / 2)) = Vector3 0 (- (sqrt 3 / 2)) 0"
    by (simp add: crossVectors_def)
  then have u1: "normalize (crossVectors (Vector3 0 0 1) (Vector3 (- (sqrt 3 / 2)) 0 (1 / 2))) = Vector3 0 (- 1) 0"
    by (simp add: normalize_neg_y)
  have c: "crossVectors (Vector3 (sqrt 6 / 4) (1 / 2) (sqrt 6 / 4)) (Vector3 (- (sqrt 6 / 4)) (1 / 2) (sqrt 6 / 4))
         = Vector3 0 (- (3 / 4)) (sqrt 6 / 4)"
    by (simp add: crossVectors_def)
  show ?thesis
    unfolding u1 c by (rule normalize_cross_down) simp_all
qed

lemma arctan_sqrt3: "arctan (sqrt 3) = pi / 3"
proof (rule arctan_unique)
  show "- (pi / 2) < pi / 3" using pi_gt_zero by linarith
  show "pi / 3 < pi / 2" using pi_gt_zero by linarith
  show "tan (pi / 3) = sqrt 3" by (rule tan_60)
qed

lemma sph_z: "vectorToSpherical (Vector3 0 0 1) = \<lparr> s_latitude = 0, s_longitude = 2 * pi \<rparr>"
  by (simp add: vectorToSpherical_def atan2_def vlength_def Let_def)

lemma sph_v1:
  "vectorToSpherical (Vector3 (- (sqrt 3 / 2)) 0 (1 / 2)) = \<lparr> s_latitude = 0, s_longitude = pi / 3 \<rparr>"
proof -
  have l: "vlength (Vector3 (- (sqrt 3 / 2)) 0 (1 / 2)) = 1"
    by (simp add: vlength_def)
  have a: "atan2 (- (sqrt 3 / 2)) (1 / 2) = - (pi / 3)"
    by (simp add: atan2_def arctan_minus arctan_sqrt3)
  show ?thesis
    by (simp add: vectorToSpherical_def Let_def l a)
qed

lemma sph_mx: "vectorToSpherical (Vector3 (- 1) 0 0) = \<lparr> s_latitude = 0, s_longitude = pi / 2 \<rparr>"
  using pi_gt_zero by (simp add: vectorToSpherical_def atan2_def vlength_def Let_def)

lemma corner_length: "vlength (Vector3 (sqrt 6 / 4) (1 / 2) (sqrt 6 / 4)) = 1"
  "vlength (Vector3 (- (sqrt 6 / 4)) (1 / 2) (sqrt 6 / 4)) = 1"
  by (simp_all add: vlength_def)

lemma sph_c0:
  "vectorToSpherical (Vector3 (sqrt 6 / 4) (1 / 2) (sqrt 6 / 4)) = \<lparr> s_latitude = pi / 6, s_longitude = 7 * pi / 4 \<rparr>"
proof -
  have a: "atan2 (sqrt 6 / 4) (sqrt 6 / 4) = pi / 4"
    by (simp add: atan2_def arctan_one)
  show ?thesis
    by (simp add: vectorToSpherical_def Let_def corner_length a)
qed

lemma sph_c1:
  "vectorToSpherical (Vector3 (- (sqrt 6 / 4)) (1 / 2) (sqrt 6 / 4)) = \<lparr> s_latitude = pi / 6, s_longitude = pi / 4 \<rparr>"
proof -
  have a: "atan2 (- (sqrt 6 / 4)) (sqrt 6 / 4) = - (pi / 4)"
    by (simp add: atan2_def arctan_minus arctan_one)
  show ?thesis
    by (simp add: vectorToSpherical_def Let_def corner_length a)
qed


lemma arc_rec:
  "arc \<lparr> s_latitude = la, s_longitude = lo \<rparr> \<lparr> s_latitude = lb, s_longitude = lob \<rparr>
     = arccos (sin la * sin lb + cos la * cos lb * cos (lo - lob))"
  by (simp add: arc_def)

lemma arccos_sqrt3_half: "arccos (sqrt 3 / 2) = pi / 6"
proof -
  have "arccos (cos (pi / 6)) = pi / 6"
    using pi_gt_zero by (intro arccos_cos) simp_all
  then show ?thesis by (simp only: cos_30)
qed

lemma arc_v0_v1:
  "arc \<lparr> s_latitude = 0, s_longitude = 2 * pi \<rparr> \<lparr> s_latitude = 0, s_longitude = pi / 3 \<rparr> = pi / 3"
proof -
  have c: "cos (2 * pi - pi / 3) = 1 / 2" by (simp only: cos_2pi_minus cos_60)
  show ?thesis unfolding arc_rec c by simp
qed

lemma arc_s_v0:
  "arc \<lparr> s_latitude = 0, s_longitude = pi / 2 \<rparr> \<lparr> s_latitude = 0, s_longitude = 2 * pi \<rparr> = pi / 2"
proof -
  have c: "cos (pi / 2 - 2 * pi) = 0"
    by (simp only: cos_diff cos_pi_half sin_two_pi)
  show ?thesis unfolding arc_rec c by simp
qed

lemma arc_s_v1:
  "arc \<lparr> s_latitude = 0, s_longitude = pi / 2 \<rparr> \<lparr> s_latitude = 0, s_longitude = pi / 3 \<rparr> = pi / 6"
proof -
  have c: "cos (pi / 2 - pi / 3) = sqrt 3 / 2"
    by (simp only: cos_diff cos_pi_half sin_pi_half sin_60)
  show ?thesis unfolding arc_rec c by (simp add: arccos_sqrt3_half)
qed

lemma arc_c0_c1:
  "arc \<lparr> s_latitude = pi / 6, s_longitude = 7 * pi / 4 \<rparr> \<lparr> s_latitude = pi / 6, s_longitude = pi / 4 \<rparr>
     = arccos (1 / 4)"
proof -
  have c: "cos (7 * pi / 4 - pi / 4) = 0"
    by (simp only: cos_diff sin_cos_7pi4 sin_45 cos_45)
  show ?thesis unfolding arc_rec c sin_30 cos_30 by simp
qed

lemma arc_s_c0:
  "arc \<lparr> s_latitude = 0, s_longitude = pi / 2 \<rparr> \<lparr> s_latitude = pi / 6, s_longitude = 7 * pi / 4 \<rparr>
     = arccos (- (sqrt 6 / 4))"
proof -
  have c: "cos (pi / 2 - 7 * pi / 4) = - (sqrt 2 / 2)"
    by (simp only: cos_diff cos_pi_half sin_pi_half sin_cos_7pi4)
  show ?thesis unfolding arc_rec c sin_30 cos_30 by (simp add: sqrt6)
qed

lemma arc_s_c1:
  "arc \<lparr> s_latitude = 0, s_longitude = pi / 2 \<rparr> \<lparr> s_latitude = pi / 6, s_longitude = pi / 4 \<rparr>
     = arccos (sqrt 6 / 4)"
proof -
  have c: "cos (pi / 2 - pi / 4) = sqrt 2 / 2"
    by (simp only: cos_diff cos_pi_half sin_pi_half sin_45)
  show ?thesis unfolding arc_rec c sin_30 cos_30 by (simp add: sqrt6)
qed

lemma sqrt6_le: "sqrt 6 / 4 \<le> 1" "- 1 \<le> sqrt 6 / 4"
proof -
  have "sqrt 6 \<le> sqrt 16" by (simp only: real_sqrt_le_iff)
  then show le: "sqrt 6 / 4 \<le> 1" by simp
  have "0 \<le> sqrt 6 / 4" by simp
  then show "- 1 \<le> sqrt 6 / 4" by linarith
qed

lemma side_margin:
  "arccos (1 / 4) - arccos (- (sqrt 6 / 4)) - arccos (sqrt 6 / 4) = arccos (1 / 4) - pi"
  using arccos_minus[OF sqrt6_le(2,1)] by simp

lemma arccos_quarter: "arccos (1 / 4) \<le> pi / 2"
  by (rule arccos_le_pi2) simp_all

lemma tolerance_pos: "0 < tolerance"
  by (simp add: tolerance_def)

lemma example_corners:
  "computeFrustrumPoints exampleViewer (computeFovBounds exampleViewer) =
     [Vector3 (sqrt 6 / 4) (1 / 2) (sqrt 6 / 4),
      Vector3 (- (sqrt 6 / 4)) (1 / 2) (sqrt 6 / 4),
      sphericalToVector (pi / 4) (- pi / 6),
      sphericalToVector (7 * pi / 4) (- pi / 6)]"
proof -
  have v: "sphericalCoordsToVector3 exampleViewer = sphericalToVector"
    by (simp add: exampleViewer_def)
  show ?thesis
    unfolding computeFrustrumPoints_def example_bounds v
    by (simp add: corner0 corner1)
qed

lemma pair_intersection:
  "computeArcIntersection2 exampleViewer (Vector3 0 0 1) (Vector3 (- (sqrt 3 / 2)) 0 (1 / 2))
     (Vector3 (sqrt 6 / 4) (1 / 2) (sqrt 6 / 4)) (Vector3 (- (sqrt 6 / 4)) (1 / 2) (sqrt 6 / 4))
   = Some (Vector3 (- 1) 0 0)"
proof -
  have v: "vector3ToSphericalCoords exampleViewer = vectorToSpherical"
    by (simp add: exampleViewer_def)
  have t1: "pi / 3 - pi / 2 - pi / 6 < tolerance"
    using tolerance_pos pi_gt_zero by linarith
  have t2: "arccos (1 / 4) - arccos (- (sqrt 6 / 4)) - arccos (sqrt 6 / 4) < tolerance"
    using side_margin arccos_quarter tolerance_pos pi_gt_zero by linarith
  show ?thesis
    unfolding computeArcIntersection2_def Let_def v candidate sph_z sph_v1 sph_mx sph_c0 sph_c1
      arc_v0_v1 arc_s_v0 arc_s_v1 arc_c0_c1 arc_s_c0 arc_s_c1
    using t1 t2 by (simp add: arc_c0_c1 arc_s_c0 arc_s_c1)
qed


lemma vertex2: "sphericalToVector 0 (1 / 10) = Vector3 0 (sin (1 / 10)) (cos (1 / 10))"
  by (simp add: sphericalToVector_def)

lemma straddling_geometry:
  "geometry (PSVMarker straddlingTriangle) =
     Polygon [Vector3 0 0 1, Vector3 (- (sqrt 3 / 2)) 0 (1 / 2), Vector3 0 (sin (1 / 10)) (cos (1 / 10))]
             [(0, 0), (0, pi / 3), (1 / 10, 0)]"
  by (simp add: PSVMarker_def straddlingTriangle_def exampleProperties_def vertex0 vertex1 vertex2)

lemma straddling_flags:
  "inFov (computeFovBounds exampleViewer) (0, 0)"
  "\<not> inFov (computeFovBounds exampleViewer) (0, pi / 3)"
  "inFov (computeFovBounds exampleViewer) (1 / 10, 0)"
proof -
  have p: "2 \<le> pi" by (rule pi_ge_two)
  show "inFov (computeFovBounds exampleViewer) (0, 0)"
    unfolding example_bounds using p by (simp add: inFov_def)
  show "\<not> inFov (computeFovBounds exampleViewer) (0, pi / 3)"
    unfolding example_bounds using p by (simp add: inFov_def)
  show "inFov (computeFovBounds exampleViewer) (1 / 10, 0)"
    unfolding example_bounds using p by (simp add: inFov_def)
qed

lemma straddling_positions:
  "initialPositions (computeFovBounds exampleViewer)
     [Vector3 0 0 1, Vector3 (- (sqrt 3 / 2)) 0 (1 / 2), Vector3 0 (sin (1 / 10)) (cos (1 / 10))]
     [(0, 0), (0, pi / 3), (1 / 10, 0)]
   = [\<lparr> pos_spherical = (0, 0), pos_vector = Some (Vector3 0 0 1), pos_visible = True \<rparr>,
      \<lparr> pos_spherical = (0, pi / 3), pos_vector = Some (Vector3 (- (sqrt 3 / 2)) 0 (1 / 2)),
        pos_visible = False \<rparr>,
      \<lparr> pos_spherical = (1 / 10, 0), pos_vector = Some (Vector3 0 (sin (1 / 10)) (cos (1 / 10))),
        pos_visible = True \<rparr>]"
  by (simp add: initialPositions_def nth_opt_def straddling_flags upt_rec)

lemma straddling_queue:
  "toBeComputed
     [\<lparr> pos_spherical = (0, 0), pos_vector = Some (Vector3 0 0 1), pos_visible = True \<rparr>,
      \<lparr> pos_spherical = (0, pi / 3), pos_vector = Some (Vector3 (- (sqrt 3 / 2)) 0 (1 / 2)),
        pos_visible = False \<rparr>,
      \<lparr> pos_spherical = (1 / 10, 0), pos_vector = Some (Vector3 0 (sin (1 / 10)) (cos (1 / 10))),
        pos_visible = True \<rparr>]
     (int (length [Vector3 0 0 1, Vector3 (- (sqrt 3 / 2)) 0 (1 / 2),
                   Vector3 0 (sin (1 / 10)) (cos (1 / 10))]))
     [0 ..< length
       [\<lparr> pos_spherical = (0, 0), pos_vector = Some (Vector3 0 0 1), pos_visible = True \<rparr>,
        \<lparr> pos_spherical = (0, pi / 3), pos_vector = Some (Vector3 (- (sqrt 3 / 2)) 0 (1 / 2)),
          pos_visible = False \<rparr>,
        \<lparr> pos_spherical = (1 / 10, 0), pos_vector = Some (Vector3 0 (sin (1 / 10)) (cos (1 / 10))),
          pos_visible = True \<rparr>]]
   = Inr [(0, 1)]"
  by (simp add: visibleNeighbour_def nth_opt_def Let_def upt_rec)

lemma straddling_point:
  "computeIntermediaryPoint exampleViewer
     (computeFrustrumPoints exampleViewer (computeFovBounds exampleViewer))
     (Vector3 0 0 1) (Vector3 (- (sqrt 3 / 2)) 0 (1 / 2)) = Inr (Some (Vector3 (- 1) 0 0))"
  unfolding example_corners
  by (simp add: computeIntermediaryPoint_def nth_opt_def pair_intersection)

lemma straddling_clipped:
  "getPolygonPositions exampleViewer (computeFovBounds exampleViewer)
     (computeFrustrumPoints exampleViewer (computeFovBounds exampleViewer))
     [Vector3 0 0 1, Vector3 (- (sqrt 3 / 2)) 0 (1 / 2), Vector3 0 (sin (1 / 10)) (cos (1 / 10))]
     [(0, 0), (0, pi / 3), (1 / 10, 0)]
   = Inr [projectToScreen (Vector3 0 0 1), projectToScreen (Vector3 (- 1) 0 0),
          projectToScreen (Vector3 0 (sin (1 / 10)) (cos (1 / 10)))]"
proof -
  have v: "vector3ToViewerCoords exampleViewer = projectToScreen"
    by (simp add: exampleViewer_def)
  show ?thesis
    unfolding getPolygonPositions_def Let_def straddling_positions straddling_queue
    by (simp add: straddling_point v)
qed

lemma updateOne_polygon_points:
  assumes "geometry m = Polygon positions3D polygon_rad"
    and "getPolygonPositions v fb fp positions3D polygon_rad = Inr ps"
  shows "\<exists>m'. updateOne v fb fp rot r m = Inr m' \<and> el_points m' = ps \<and> el_visible m'"
  using assms
  by (simp add: updateOne_def isPolygonVisible_def getPolygonDimensions_def Let_def)

lemma straddling_marker:
  "marker_id (PSVMarker straddlingTriangle) = ''straddle''"
  "\<not> isNormal (PSVMarker straddlingTriangle)"
  "p_id straddlingTriangle = Some ''straddle''"
  by (simp_all add: PSVMarker_def straddlingTriangle_def exampleProperties_def isNormal_def)

lemma straddling_run:
  "el_points (heap (snd (addMarker exampleViewer straddlingTriangle None exampleHud)) 0)
     = [projectToScreen (Vector3 0 0 1), projectToScreen (Vector3 (- 1) 0 0),
        projectToScreen (Vector3 0 (sin (1 / 10)) (cos (1 / 10)))]"
proof -
  let ?fb = "computeFovBounds exampleViewer"
  let ?fp = "computeFrustrumPoints exampleViewer ?fb"
  from updateOne_polygon_points[OF straddling_geometry straddling_clipped,
      of "rotationOf exampleViewer" 0]
  obtain m' where m': "updateOne exampleViewer ?fb ?fp (rotationOf exampleViewer) 0
        (PSVMarker straddlingTriangle) = Inr m'"
    "el_points m' = [projectToScreen (Vector3 0 0 1), projectToScreen (Vector3 (- 1) 0 0),
        projectToScreen (Vector3 0 (sin (1 / 10)) (cos (1 / 10)))]"
    by blast
  have run: "addMarker exampleViewer straddlingTriangle None exampleHud =
        (Return 0,
         exampleHud \<lparr> markers := [(''straddle'', 0)], heap := (heap exampleHud) (0 := m'), nextRef := 1,
            svg_children := [0], fovBounds := Some ?fb, frustrumPoints := ?fp \<rparr>)"
    by (simp add: addMarker_def updatePositions_def straddling_marker m' exampleHud_def newHud_def Let_def)
  show ?thesis by (simp add: run m'(2))
qed

text \<open>
  C2. The triangle \<open>straddlingTriangle\<close> in the example viewer. Its vertex at longitude
  \<open>\<pi>/3\<close> is outside the window and is queued with its visible neighbour at longitude 0.
  For this pair and the first side of the frustum (the top edge), \<open>_computeArcIntersection2\<close>
  returns the candidate \<open>(-1, 0, 0)\<close>, the point of the equator at longitude \<open>\<pi>/2\<close>. It
  lies on neither segment: the sum of its distances to the endpoints of the edge exceeds the
  length of the edge by \<open>\<pi>/3\<close>, and for the side the excess is \<open>\<pi> - arccos (1/4)\<close>, at
  least \<open>\<pi>/2\<close>. Both tests of the routine pass, because they compare \<open>direct - sum\<close>
  with the tolerance without taking the absolute value, and the pass of \<open>addMarker\<close> draws
  the polygon with this point in the place of the vertex.
\<close>

theorem queued_pair_replaced_by_point_off_both_segments:
  "toBeComputed
     (initialPositions (computeFovBounds exampleViewer)
        [sphericalToVector 0 0, sphericalToVector (pi / 3) 0, sphericalToVector 0 (1 / 10)]
        [(0, 0), (0, pi / 3), (1 / 10, 0)])
     (int (length [sphericalToVector 0 0, sphericalToVector (pi / 3) 0, sphericalToVector 0 (1 / 10)]))
     [0 ..< length (initialPositions (computeFovBounds exampleViewer)
        [sphericalToVector 0 0, sphericalToVector (pi / 3) 0, sphericalToVector 0 (1 / 10)]
        [(0, 0), (0, pi / 3), (1 / 10, 0)])]
     = Inr [(0, 1)]
   \<and> computeArcIntersection2 exampleViewer (sphericalToVector 0 0) (sphericalToVector (pi / 3) 0)
        (computeFrustrumPoints exampleViewer (computeFovBounds exampleViewer) ! 0)
        (computeFrustrumPoints exampleViewer (computeFovBounds exampleViewer) ! 1)
       = Some (Vector3 (- 1) 0 0)
   \<and> arc (vectorToSpherical (sphericalToVector 0 0)) (vectorToSpherical (sphericalToVector (pi / 3) 0))
       - arc (vectorToSpherical (Vector3 (- 1) 0 0)) (vectorToSpherical (sphericalToVector 0 0))
       - arc (vectorToSpherical (Vector3 (- 1) 0 0)) (vectorToSpherical (sphericalToVector (pi / 3) 0))
       = - (pi / 3)
   \<and> arc (vectorToSpherical (computeFrustrumPoints exampleViewer (computeFovBounds exampleViewer) ! 0))
         (vectorToSpherical (computeFrustrumPoints exampleViewer (computeFovBounds exampleViewer) ! 1))
       - arc (vectorToSpherical (Vector3 (- 1) 0 0))
           (vectorToSpherical (computeFrustrumPoints exampleViewer (computeFovBounds exampleViewer) ! 0))
       - arc (vectorToSpherical (Vector3 (- 1) 0 0))
           (vectorToSpherical (computeFrustrumPoints exampleViewer (computeFovBounds exampleViewer) ! 1))
       = arccos (1 / 4) - pi
   \<and> arccos (1 / 4) - pi \<le> - (pi / 2)
   \<and> el_points (heap (snd (addMarker exampleViewer straddlingTriangle None exampleHud)) 0)
       = [projectToScreen (sphericalToVector 0 0), projectToScreen (Vector3 (- 1) 0 0),
          projectToScreen (sphericalToVector 0 (1 / 10))]"
proof -
  have q: "toBeComputed
     (initialPositions (computeFovBounds exampleViewer)
        [sphericalToVector 0 0, sphericalToVector (pi / 3) 0, sphericalToVector 0 (1 / 10)]
        [(0, 0), (0, pi / 3), (1 / 10, 0)])
     (int (length [sphericalToVector 0 0, sphericalToVector (pi / 3) 0, sphericalToVector 0 (1 / 10)]))
     [0 ..< length (initialPositions (computeFovBounds exampleViewer)
        [sphericalToVector 0 0, sphericalToVector (pi / 3) 0, sphericalToVector 0 (1 / 10)]
        [(0, 0), (0, pi / 3), (1 / 10, 0)])]
     = Inr [(0, 1)]"
    unfolding vertex0 vertex1 vertex2 straddling_positions by (rule straddling_queue)
  have c0: "computeFrustrumPoints exampleViewer (computeFovBounds exampleViewer) ! 0
        = Vector3 (sqrt 6 / 4) (1 / 2) (sqrt 6 / 4)"
    and c1: "computeFrustrumPoints exampleViewer (computeFovBounds exampleViewer) ! 1
        = Vector3 (- (sqrt 6 / 4)) (1 / 2) (sqrt 6 / 4)"
    unfolding example_corners by simp_all
  have i: "computeArcIntersection2 exampleViewer (sphericalToVector 0 0) (sphericalToVector (pi / 3) 0)
        (computeFrustrumPoints exampleViewer (computeFovBounds exampleViewer) ! 0)
        (computeFrustrumPoints exampleViewer (computeFovBounds exampleViewer) ! 1)
       = Some (Vector3 (- 1) 0 0)"
    unfolding c0 c1 vertex0 vertex1 by (rule pair_intersection)
  have m1: "arc (vectorToSpherical (sphericalToVector 0 0)) (vectorToSpherical (sphericalToVector (pi / 3) 0))
       - arc (vectorToSpherical (Vector3 (- 1) 0 0)) (vectorToSpherical (sphericalToVector 0 0))
       - arc (vectorToSpherical (Vector3 (- 1) 0 0)) (vectorToSpherical (sphericalToVector (pi / 3) 0))
       = - (pi / 3)"
    unfolding vertex0 vertex1 sph_z sph_v1 sph_mx arc_v0_v1 arc_s_v0 arc_s_v1 by simp
  have m2: "arc (vectorToSpherical (computeFrustrumPoints exampleViewer (computeFovBounds exampleViewer) ! 0))
         (vectorToSpherical (computeFrustrumPoints exampleViewer (computeFovBounds exampleViewer) ! 1))
       - arc (vectorToSpherical (Vector3 (- 1) 0 0))
           (vectorToSpherical (computeFrustrumPoints exampleViewer (computeFovBounds exampleViewer) ! 0))
       - arc (vectorToSpherical (Vector3 (- 1) 0 0))
           (vectorToSpherical (computeFrustrumPoints exampleViewer (computeFovBounds exampleViewer) ! 1))
       = arccos (1 / 4) - pi"
    unfolding c0 c1 sph_c0 sph_c1 sph_mx arc_c0_c1 arc_s_c0 arc_s_c1 by (rule side_margin)
  have b: "arccos (1 / 4) - pi \<le> - (pi / 2)"
    using arccos_quarter by linarith
  have r: "el_points (heap (snd (addMarker exampleViewer straddlingTriangle None exampleHud)) 0)
       = [projectToScreen (sphericalToVector 0 0), projectToScreen (Vector3 (- 1) 0 0),
          projectToScreen (sphericalToVector 0 (1 / 10))]"
    unfolding vertex0 vertex2 by (rule straddling_run)
  from q i m1 m2 b r show ?thesis by blast
qed

section \<open>The segment tests of the arc intersection\<close>

lemma lagrange3:
  fixes a1 a2 a3 b1 b2 b3 :: real
  shows "(a1 * b1 + a2 * b2 + a3 * b3)\<^sup>2
         + ((a2 * b3 - a3 * b2)\<^sup>2 + (a3 * b1 - a1 * b3)\<^sup>2 + (a1 * b2 - a2 * b1)\<^sup>2)
       = (a1\<^sup>2 + a2\<^sup>2 + a3\<^sup>2) * (b1\<^sup>2 + b2\<^sup>2 + b3\<^sup>2)"
  by (simp add: power2_eq_square algebra_simps)

lemma gram3:
  fixes a1 a2 a3 b1 b2 b3 c1 c2 c3 :: real
  defines "x \<equiv> a1 * b1 + a2 * b2 + a3 * b3"
    and "y \<equiv> c1 * a1 + c2 * a2 + c3 * a3"
    and "z \<equiv> c1 * b1 + c2 * b2 + c3 * b3"
    and "na \<equiv> a1\<^sup>2 + a2\<^sup>2 + a3\<^sup>2"
    and "nb \<equiv> b1\<^sup>2 + b2\<^sup>2 + b3\<^sup>2"
    and "nc \<equiv> c1\<^sup>2 + c2\<^sup>2 + c3\<^sup>2"
  shows "na * nb * nc + 2 * x * y * z - na * z\<^sup>2 - nb * y\<^sup>2 - nc * x\<^sup>2
       = (a1 * (b2 * c3 - b3 * c2) - a2 * (b1 * c3 - b3 * c1) + a3 * (b1 * c2 - b2 * c1))\<^sup>2"
  unfolding x_def y_def z_def na_def nb_def nc_def
  by (simp add: power2_eq_square algebra_simps)


lemma unit_sq:
  fixes la lo :: real
  shows "(cos la * cos lo)\<^sup>2 + (cos la * sin lo)\<^sup>2 + (sin la)\<^sup>2 = 1"
proof -
  have "(cos la * cos lo)\<^sup>2 + (cos la * sin lo)\<^sup>2 = (cos la)\<^sup>2 * ((cos lo)\<^sup>2 + (sin lo)\<^sup>2)"
    by (simp only: power_mult_distrib distrib_left)
  also have "\<dots> = (cos la)\<^sup>2" by simp
  finally show ?thesis by simp
qed

lemma dot_bound:
  fixes a1 a2 a3 b1 b2 b3 :: real
  assumes "a1\<^sup>2 + a2\<^sup>2 + a3\<^sup>2 = 1" and "b1\<^sup>2 + b2\<^sup>2 + b3\<^sup>2 = 1"
  shows "\<bar>a1 * b1 + a2 * b2 + a3 * b3\<bar> \<le> 1"
proof -
  have "(a1 * b1 + a2 * b2 + a3 * b3)\<^sup>2
         + ((a2 * b3 - a3 * b2)\<^sup>2 + (a3 * b1 - a1 * b3)\<^sup>2 + (a1 * b2 - a2 * b1)\<^sup>2) = 1"
    by (simp only: lagrange3 assms mult_1)
  moreover have "0 \<le> (a2 * b3 - a3 * b2)\<^sup>2 + (a3 * b1 - a1 * b3)\<^sup>2 + (a1 * b2 - a2 * b1)\<^sup>2"
    by simp
  ultimately have "(a1 * b1 + a2 * b2 + a3 * b3)\<^sup>2 \<le> 1" by linarith
  then show ?thesis by (simp add: abs_square_le_1)
qed

lemma gram_nonneg:
  fixes a1 a2 a3 b1 b2 b3 c1 c2 c3 :: real
  assumes na: "a1\<^sup>2 + a2\<^sup>2 + a3\<^sup>2 = 1" and nb: "b1\<^sup>2 + b2\<^sup>2 + b3\<^sup>2 = 1"
    and nc: "c1\<^sup>2 + c2\<^sup>2 + c3\<^sup>2 = 1"
  shows "0 \<le> 1 + 2 * (a1 * b1 + a2 * b2 + a3 * b3) * (c1 * a1 + c2 * a2 + c3 * a3)
                     * (c1 * b1 + c2 * b2 + c3 * b3)
               - (c1 * b1 + c2 * b2 + c3 * b3)\<^sup>2 - (c1 * a1 + c2 * a2 + c3 * a3)\<^sup>2
               - (a1 * b1 + a2 * b2 + a3 * b3)\<^sup>2"
proof -
  have "0 \<le> (a1 * (b2 * c3 - b3 * c2) - a2 * (b1 * c3 - b3 * c1) + a3 * (b1 * c2 - b2 * c1))\<^sup>2"
    by simp
  also note gram3[of a1 a2 a3 b1 b2 b3 c1 c2 c3, symmetric]
  finally show ?thesis by (simp only: na nb nc mult_1)
qed

lemma law_of_cosines_dot:
  fixes la lo lb lob :: real
  shows "sin la * sin lb + cos la * cos lb * cos \<bar>lo - lob\<bar>
       = (cos la * cos lo) * (cos lb * cos lob) + (cos la * sin lo) * (cos lb * sin lob) + sin la * sin lb"
  by (simp add: cos_diff algebra_simps)

lemma arccos_triangle:
  fixes x y z :: real
  assumes x: "\<bar>x\<bar> \<le> 1" and y: "\<bar>y\<bar> \<le> 1" and z: "\<bar>z\<bar> \<le> 1"
    and gram: "0 \<le> 1 + 2 * x * y * z - z\<^sup>2 - y\<^sup>2 - x\<^sup>2"
  shows "arccos x \<le> arccos y + arccos z"
proof (cases "pi \<le> arccos y + arccos z")
  case True
  from x have "arccos x \<le> pi" by (intro arccos_ubound) auto
  with True show ?thesis by linarith
next
  case False
  have by': "0 \<le> arccos y" and bz: "0 \<le> arccos z"
    using y z by (auto intro!: arccos_lbound)
  have y2: "y\<^sup>2 \<le> 1" and z2: "z\<^sup>2 \<le> 1"
    using y z by (simp_all add: abs_square_le_1)
  have "(y * z - x)\<^sup>2 \<le> (1 - y\<^sup>2) * (1 - z\<^sup>2)"
    using gram by (simp add: power2_eq_square algebra_simps)
  then have "y * z - x \<le> sqrt ((1 - y\<^sup>2) * (1 - z\<^sup>2))"
    by (rule real_le_rsqrt)
  also have "\<dots> = sin (arccos y) * sin (arccos z)"
    using y z by (simp add: real_sqrt_mult sin_arccos_abs)
  finally have "cos (arccos y + arccos z) \<le> x"
    using y z by (simp add: cos_add cos_arccos_abs)
  moreover have "- 1 \<le> cos (arccos y + arccos z)" by simp
  moreover from x have "x \<le> 1" by auto
  ultimately have "arccos x \<le> arccos (cos (arccos y + arccos z))"
    by (intro arccos_le_arccos)
  also have "\<dots> = arccos y + arccos z"
    using False by' bz by (intro arccos_cos) auto
  finally show ?thesis .
qed

lemma arc_triangle: "arc A B \<le> arc C A + arc C B"
proof -
  define a1 a2 a3 where "a1 = cos (s_latitude A) * cos (s_longitude A)"
    and "a2 = cos (s_latitude A) * sin (s_longitude A)" and "a3 = sin (s_latitude A)"
  define b1 b2 b3 where "b1 = cos (s_latitude B) * cos (s_longitude B)"
    and "b2 = cos (s_latitude B) * sin (s_longitude B)" and "b3 = sin (s_latitude B)"
  define c1 c2 c3 where "c1 = cos (s_latitude C) * cos (s_longitude C)"
    and "c2 = cos (s_latitude C) * sin (s_longitude C)" and "c3 = sin (s_latitude C)"
  define x y z where "x = a1 * b1 + a2 * b2 + a3 * b3" and "y = c1 * a1 + c2 * a2 + c3 * a3"
    and "z = c1 * b1 + c2 * b2 + c3 * b3"
  have na: "a1\<^sup>2 + a2\<^sup>2 + a3\<^sup>2 = 1" and nb: "b1\<^sup>2 + b2\<^sup>2 + b3\<^sup>2 = 1"
    and nc: "c1\<^sup>2 + c2\<^sup>2 + c3\<^sup>2 = 1"
    unfolding a1_def a2_def a3_def b1_def b2_def b3_def c1_def c2_def c3_def
    by (rule unit_sq)+
  have ab: "arc A B = arccos x" and ca: "arc C A = arccos y" and cb: "arc C B = arccos z"
    unfolding arc_def x_def y_def z_def a1_def a2_def a3_def b1_def b2_def b3_def c1_def c2_def c3_def
    by (simp_all only: law_of_cosines_dot)
  have x: "\<bar>x\<bar> \<le> 1" unfolding x_def by (rule dot_bound[OF na nb])
  have y: "\<bar>y\<bar> \<le> 1" unfolding y_def by (rule dot_bound[OF nc na])
  have z: "\<bar>z\<bar> \<le> 1" unfolding z_def by (rule dot_bound[OF nc nb])
  have "0 \<le> 1 + 2 * x * y * z - z\<^sup>2 - y\<^sup>2 - x\<^sup>2"
    unfolding x_def y_def z_def by (rule gram_nonneg[OF na nb nc])
  from arccos_triangle[OF x y z this] show ?thesis
    by (simp add: ab ca cb)
qed

text \<open>
  In the model, where the arcs are exact reals, \<open>direct - sum\<close> is never positive (the
  triangle inequality on the sphere), so the tests as written reject no candidate: the
  first candidate of the first side is the answer. This is a statement about the tests over
  exact arithmetic only. In double precision the rounding of \<open>acos\<close>, \<open>sin\<close> and \<open>cos\<close>
  can push \<open>direct - sum\<close> of a candidate that lies on the segment above the tolerance,
  and coincident great circles give \<open>NaN\<close>; there the code can return the second candidate
  or \<open>null\<close>, and these lemmas say nothing about it.
\<close>

lemma arc_test_always_passes: "arc A B - arc C A - arc C B < tolerance"
proof -
  have "0 < tolerance" by (simp add: tolerance_def)
  with arc_triangle[of A B C] show ?thesis by linarith
qed

lemma computeArcIntersection2_first_candidate:
  "computeArcIntersection2 v P1 P2 P3 P4 =
     Some (normalize (crossVectors (normalize (crossVectors P1 P2)) (normalize (crossVectors P3 P4))))"
  by (simp add: computeArcIntersection2_def Let_def arc_test_always_passes)

lemma computeIntermediaryPoint_first_side:
  "computeIntermediaryPoint v [f0, f1, f2, f3] P1 P2 =
     Inr (Some (normalize (crossVectors (normalize (crossVectors P1 P2)) (normalize (crossVectors f0 f1)))))"
  by (simp add: computeIntermediaryPoint_def nth_opt_def computeArcIntersection2_first_candidate)

end
